theory Spec2Isabelle
  imports Main "HOL-Library.Log_Nat"
begin

section \<open>Python values used by extractor.py\<close>

subsection \<open>Strings and the character database\<close>

text \<open>
  A Python \<^verbatim>\<open>str\<close> is a sequence of Unicode code points; a code point is a natural
  number. \<open>py\<close> writes an ASCII literal as such a sequence. Code points outside ASCII
  that occur in the source are written as numbers: 8364 is the euro sign, 250 is
  u-acute, 243 is o-acute, 176 the degree sign and 186 the masculine ordinal.
\<close>

type_synonym pystr = "nat list"

definition py :: "string \<Rightarrow> pystr" where
  "py s = map of_char s"

text \<open>
  The classes \<^verbatim>\<open>\d\<close>, \<^verbatim>\<open>\w\<close>, \<^verbatim>\<open>\s\<close>, \<^verbatim>\<open>str.strip\<close>, \<^verbatim>\<open>float\<close> and the flag
  \<^verbatim>\<open>re.IGNORECASE\<close> consult the Unicode character database of the interpreter. On
  ASCII the database is fixed and written out below. Above ASCII it depends on the
  interpreter's Unicode version, so it is a parameter \<open>U\<close> of every function:
  \<open>uni_decimal\<close> is \<^verbatim>\<open>Py_UNICODE_TODECIMAL\<close> (the digit value of a decimal digit),
  \<open>uni_alnum\<close> is \<^verbatim>\<open>Py_UNICODE_ISALNUM\<close>, \<open>uni_space\<close> is \<^verbatim>\<open>Py_UNICODE_ISSPACE\<close> and
  \<open>uni_lower\<close> is \<^verbatim>\<open>Py_UNICODE_TOLOWER\<close>, each read only at code points from 128 on.
\<close>

record unicode_db =
  uni_decimal :: "nat \<Rightarrow> nat option"
  uni_alnum :: "nat \<Rightarrow> bool"
  uni_space :: "nat \<Rightarrow> bool"
  uni_lower :: "nat \<Rightarrow> nat"

definition todecimal :: "unicode_db \<Rightarrow> nat \<Rightarrow> nat option" where
  "todecimal U c =
     (if c < 128 then (if 48 \<le> c \<and> c \<le> 57 then Some (c - 48) else None)
      else (case uni_decimal U c of None \<Rightarrow> None | Some d \<Rightarrow> Some (d mod 10)))"

text \<open>\<^verbatim>\<open>\d\<close>: a decimal digit of any script.\<close>

definition is_digit :: "unicode_db \<Rightarrow> nat \<Rightarrow> bool" where
  "is_digit U c = (case todecimal U c of None \<Rightarrow> False | Some d \<Rightarrow> True)"

text \<open>\<^verbatim>\<open>\s\<close> and the characters \<^verbatim>\<open>str.strip()\<close> removes.\<close>

definition is_space :: "unicode_db \<Rightarrow> nat \<Rightarrow> bool" where
  "is_space U c =
     (if c < 128 then (9 \<le> c \<and> c \<le> 13) \<or> (28 \<le> c \<and> c \<le> 32) else uni_space U c)"

definition is_alnum :: "unicode_db \<Rightarrow> nat \<Rightarrow> bool" where
  "is_alnum U c =
     (if c < 128 then (48 \<le> c \<and> c \<le> 57) \<or> (65 \<le> c \<and> c \<le> 90) \<or> (97 \<le> c \<and> c \<le> 122)
      else uni_alnum U c)"

text \<open>\<^verbatim>\<open>\w\<close>: alphanumeric or underscore.\<close>

definition is_word :: "unicode_db \<Rightarrow> nat \<Rightarrow> bool" where
  "is_word U c = (c = 95 \<or> is_alnum U c)"

definition to_lower :: "unicode_db \<Rightarrow> nat \<Rightarrow> nat" where
  "to_lower U c = (if c < 128 then (if 65 \<le> c \<and> c \<le> 90 then c + 32 else c) else uni_lower U c)"

text \<open>
  Matching under \<^verbatim>\<open>re.IGNORECASE\<close>, as the \<^verbatim>\<open>re\<close> compiler emits it for an ASCII
  pattern character \<open>p\<close>: a character without case is compared as it is; a letter is
  lowered, and the text character matches when its lower case is that letter or one of
  the letter's extra equivalents (dotless i, code point 305, for \<open>i\<close>; long s, code
  point 383, for \<open>s\<close>).
\<close>

definition case_fixes :: "nat \<Rightarrow> nat list" where
  "case_fixes lo = (if lo = 105 then [305] else if lo = 115 then [383] else [])"

definition ascii_cased :: "nat \<Rightarrow> bool" where
  "ascii_cased p = ((65 \<le> p \<and> p \<le> 90) \<or> (97 \<le> p \<and> p \<le> 122))"

definition lit_i :: "unicode_db \<Rightarrow> nat \<Rightarrow> nat \<Rightarrow> bool" where
  "lit_i U p c =
     (if ascii_cased p then to_lower U c \<in> set (to_lower U p # case_fixes (to_lower U p))
      else c = p)"

text \<open>The class \<^verbatim>\<open>[A-Z]\<close> under \<^verbatim>\<open>re.IGNORECASE\<close>: the lowered range and its equivalents.\<close>

definition upper_range_i :: "unicode_db \<Rightarrow> nat \<Rightarrow> bool" where
  "upper_range_i U c = ((97 \<le> to_lower U c \<and> to_lower U c \<le> 122) \<or> to_lower U c = 305 \<or> to_lower U c = 383)"

text \<open>\<^verbatim>\<open>s.strip()\<close>, \<^verbatim>\<open>s.replace(old, new)\<close> for a non-empty \<open>old\<close> (all occurrences, left
  to right, not overlapping: \<open>n\<close> counts the characters of an occurrence still to skip).\<close>

definition py_strip :: "unicode_db \<Rightarrow> pystr \<Rightarrow> pystr" where
  "py_strip U s = rev (dropWhile (is_space U) (rev (dropWhile (is_space U) s)))"

fun replace_from :: "pystr \<Rightarrow> pystr \<Rightarrow> nat \<Rightarrow> pystr \<Rightarrow> pystr" where
  "replace_from old new n [] = []"
| "replace_from old new (Suc n) (c # cs) = replace_from old new n cs"
| "replace_from old new 0 (c # cs) =
     (if take (length old) (c # cs) = old
      then new @ replace_from old new (length old - 1) cs
      else c # replace_from old new 0 cs)"

definition py_replace :: "pystr \<Rightarrow> pystr \<Rightarrow> pystr \<Rightarrow> pystr" where
  "py_replace old new s = replace_from old new 0 s"

subsection \<open>Exceptions\<close>

datatype py_error = ValueError | KeyError | TypeError

definition py_bind :: "py_error + 'a \<Rightarrow> ('a \<Rightarrow> py_error + 'b) \<Rightarrow> py_error + 'b" where
  "py_bind m f = (case m of Inl e \<Rightarrow> Inl e | Inr x \<Rightarrow> f x)"

text \<open>\<^verbatim>\<open>try: body  except: handler\<close> with a bare \<^verbatim>\<open>except\<close>.\<close>

definition py_try :: "py_error + 'a \<Rightarrow> py_error + 'a \<Rightarrow> py_error + 'a" where
  "py_try body handler = (case body of Inl e \<Rightarrow> handler | Inr x \<Rightarrow> Inr x)"

subsection \<open>Floats\<close>

text \<open>
  A Python \<^verbatim>\<open>float\<close> is an IEEE 754 binary64 number. The values this program reaches
  are not negative: \<open>Fin q\<close> is the finite double whose exact value is the rational
  \<open>q\<close>, \<open>PInf\<close> is \<^verbatim>\<open>inf\<close>, \<open>NaN\<close> is \<^verbatim>\<open>nan\<close>. \<open>round_double q\<close> is the double nearest
  to a rational \<open>q \<ge> 0\<close>, ties to the even significand: 53 bits of significand, the
  least exponent \<open>- 1074\<close> (subnormal numbers, and underflow to \<open>0.0\<close>), and \<^verbatim>\<open>inf\<close> from
  \<open>2 ^ 1024\<close> on.
\<close>

datatype pyfloat = Fin rat | PInf | NaN

definition pow2 :: "int \<Rightarrow> rat" where
  "pow2 e = (if 0 \<le> e then 2 ^ nat e else 1 / 2 ^ nat (- e))"

text \<open>\<open>ilog2 q\<close> is the binary exponent of \<open>q > 0\<close>: \<open>2 ^ ilog2 q \<le> q < 2 ^ (ilog2 q + 1)\<close>.\<close>

definition ilog2 :: "rat \<Rightarrow> int" where
  "ilog2 q =
     (if 1 \<le> q then bitlen \<lfloor>q\<rfloor> - 1 else - bitlen (\<lceil>1 / q\<rceil> - 1))"

definition round_half_even :: "rat \<Rightarrow> int" where
  "round_half_even r =
     (let f = \<lfloor>r\<rfloor>; d = r - of_int f
      in if d < 1 / 2 then f else if 1 / 2 < d then f + 1 else if even f then f else f + 1)"

definition round_double :: "rat \<Rightarrow> pyfloat" where
  "round_double q =
     (if q = 0 then Fin 0
      else let p = max (ilog2 q - 52) (- 1074);
               v = of_int (round_half_even (q / pow2 p)) * pow2 p
           in if pow2 1024 \<le> v then PInf else Fin v)"

text \<open>\<^verbatim>\<open>a * b\<close> and \<^verbatim>\<open>a <= b\<close> on these values; truth of a float: \<^verbatim>\<open>0.0\<close> is false.\<close>

fun fmul :: "pyfloat \<Rightarrow> pyfloat \<Rightarrow> pyfloat" where
  "fmul (Fin a) (Fin b) = round_double (a * b)"
| "fmul (Fin a) PInf = (if a = 0 then NaN else PInf)"
| "fmul PInf (Fin b) = (if b = 0 then NaN else PInf)"
| "fmul PInf PInf = PInf"
| "fmul NaN y = NaN"
| "fmul x NaN = NaN"

fun fle :: "pyfloat \<Rightarrow> pyfloat \<Rightarrow> bool" where
  "fle (Fin a) (Fin b) = (a \<le> b)"
| "fle (Fin a) PInf = True"
| "fle PInf (Fin b) = False"
| "fle PInf PInf = True"
| "fle NaN y = False"
| "fle x NaN = False"

definition float_truthy :: "pyfloat \<Rightarrow> bool" where
  "float_truthy x = (case x of Fin q \<Rightarrow> (if q = 0 then False else True) | PInf \<Rightarrow> True | NaN \<Rightarrow> True)"

text \<open>Truth of an \<^verbatim>\<open>Optional[float]\<close>: \<^verbatim>\<open>None\<close> and \<^verbatim>\<open>0.0\<close> are false.\<close>

definition truthy :: "pyfloat option \<Rightarrow> bool" where
  "truthy v = (case v of None \<Rightarrow> False | Some x \<Rightarrow> float_truthy x)"

text \<open>
  \<^verbatim>\<open>float(s)\<close> on a string of decimal digits and dots, the only strings
  \<open>normalizar_importe\<close> passes to it (lemma \<open>limpiar_digits_dots\<close> below): digits, at most
  one dot, at least one digit; the value is the decimal number, correctly rounded.
  Anything else raises \<^verbatim>\<open>ValueError\<close>. (Signs, exponents, underscores, blanks, \<^verbatim>\<open>inf\<close> and
  \<^verbatim>\<open>nan\<close>, which \<^verbatim>\<open>float\<close> also reads, hold a character that is neither digit nor dot and
  are not modelled.)
\<close>

definition digit_of :: "unicode_db \<Rightarrow> nat \<Rightarrow> nat" where
  "digit_of U c = (case todecimal U c of None \<Rightarrow> 0 | Some d \<Rightarrow> d)"

definition digits_val :: "unicode_db \<Rightarrow> pystr \<Rightarrow> nat" where
  "digits_val U ds = foldl (\<lambda>a c. 10 * a + digit_of U c) 0 ds"

definition py_float :: "unicode_db \<Rightarrow> pystr \<Rightarrow> py_error + pyfloat" where
  "py_float U s =
     (let ip = takeWhile (\<lambda>c. c \<noteq> 46) s;
          fp = drop 1 (dropWhile (\<lambda>c. c \<noteq> 46) s)
      in if list_all (is_digit U) ip \<and> list_all (is_digit U) fp \<and> \<not> (ip = [] \<and> fp = [])
         then Inr (round_double (of_nat (digits_val U (ip @ fp)) / 10 ^ length fp))
         else Inl ValueError)"

section \<open>Regular expressions\<close>

text \<open>
  The patterns of extractor.py use literals, character classes, concatenation,
  alternation, an optional group, repetition of one character class (greedy \<^verbatim>\<open>*\<close>,
  \<^verbatim>\<open>+\<close>, \<^verbatim>\<open>{m,n}\<close>, \<^verbatim>\<open>{m,}\<close> and the lazy \<^verbatim>\<open>.*?\<close>) and one capturing group. \<open>Rep g lo hi p\<close>
  repeats the class \<open>p\<close> between \<open>lo\<close> and \<open>hi\<close> times (\<open>None\<close>: unbounded), greedily
  when \<open>g\<close>.

  \<open>bt\<close> is the backtracking matcher of \<^verbatim>\<open>re\<close>: it matches a pattern at the head of the
  text and hands the rest of the text and the text of group 1 to the continuation \<open>k\<close>;
  when the continuation fails it tries the pattern's next way to match, in the order
  \<^verbatim>\<open>re\<close> tries them (left alternative first, longest repetition first when greedy,
  shortest first when lazy).
\<close>

datatype rx =
    Eps
  | Atom "nat \<Rightarrow> bool"
  | Cat rx rx
  | Alt rx rx
  | Opt rx
  | Rep bool nat "nat option" "nat \<Rightarrow> bool"
  | Grp rx

fun rep_max :: "(nat \<Rightarrow> bool) \<Rightarrow> nat \<Rightarrow> nat option \<Rightarrow> (pystr \<Rightarrow> 'a option) \<Rightarrow> pystr \<Rightarrow> 'a option" where
  "rep_max p lo hi k [] = (if lo = 0 then k [] else None)"
| "rep_max p lo hi k (c # cs) =
     (if p c \<and> hi \<noteq> Some 0
      then (case rep_max p (lo - 1) (map_option (\<lambda>h. h - 1) hi) k cs of
              Some r \<Rightarrow> Some r
            | None \<Rightarrow> if lo = 0 then k (c # cs) else None)
      else if lo = 0 then k (c # cs) else None)"

fun rep_min :: "(nat \<Rightarrow> bool) \<Rightarrow> nat \<Rightarrow> nat option \<Rightarrow> (pystr \<Rightarrow> 'a option) \<Rightarrow> pystr \<Rightarrow> 'a option" where
  "rep_min p lo hi k [] = (if lo = 0 then k [] else None)"
| "rep_min p lo hi k (c # cs) =
     (if 0 < lo
      then (if p c \<and> hi \<noteq> Some 0 then rep_min p (lo - 1) (map_option (\<lambda>h. h - 1) hi) k cs else None)
      else (case k (c # cs) of
              Some r \<Rightarrow> Some r
            | None \<Rightarrow> if p c \<and> hi \<noteq> Some 0 then rep_min p 0 (map_option (\<lambda>h. h - 1) hi) k cs else None))"

fun bt :: "rx \<Rightarrow> (pystr \<Rightarrow> pystr option \<Rightarrow> 'a option) \<Rightarrow> pystr \<Rightarrow> pystr option \<Rightarrow> 'a option" where
  "bt Eps k s g = k s g"
| "bt (Atom p) k s g = (case s of [] \<Rightarrow> None | c # cs \<Rightarrow> if p c then k cs g else None)"
| "bt (Cat a b) k s g = bt a (\<lambda>s' g'. bt b k s' g') s g"
| "bt (Alt a b) k s g = (case bt a k s g of Some r \<Rightarrow> Some r | None \<Rightarrow> bt b k s g)"
| "bt (Opt a) k s g = (case bt a k s g of Some r \<Rightarrow> Some r | None \<Rightarrow> k s g)"
| "bt (Rep greedy lo hi p) k s g =
     (if greedy then rep_max p lo hi (\<lambda>s'. k s' g) s else rep_min p lo hi (\<lambda>s'. k s' g) s)"
| "bt (Grp a) k s g = bt a (\<lambda>s' g'. k s' (Some (take (length s - length s') s))) s g"

text \<open>
  \<^verbatim>\<open>re.search(pattern, text)\<close>: the match at the leftmost position where the pattern
  matches. Of the match object the program reads \<^verbatim>\<open>group(1)\<close> only, so a match is the
  text of group 1 (\<open>None\<close> when the group took no part in the match).
\<close>

fun re_search :: "rx \<Rightarrow> pystr \<Rightarrow> pystr option option" where
  "re_search r [] = bt r (\<lambda>s' g. Some g) [] None"
| "re_search r (c # cs) =
     (case bt r (\<lambda>s' g. Some g) (c # cs) None of
        Some g \<Rightarrow> Some g
      | None \<Rightarrow> re_search r cs)"

text \<open>
  \<^verbatim>\<open>re.findall(pattern, text)\<close> for a pattern without groups that matches no empty
  string (the one pattern extractor.py gives it needs three characters): the matched
  texts, left to right, each search resuming where the last match ended. \<open>n\<close> counts the
  characters of the last match still to skip.
\<close>

fun findall_from :: "rx \<Rightarrow> nat \<Rightarrow> pystr \<Rightarrow> pystr list" where
  "findall_from r n [] = []"
| "findall_from r (Suc n) (c # cs) = findall_from r n cs"
| "findall_from r 0 (c # cs) =
     (case bt r (\<lambda>s' g. Some (length (c # cs) - length s')) (c # cs) None of
        None \<Rightarrow> findall_from r 0 cs
      | Some m \<Rightarrow> take m (c # cs) # findall_from r (m - 1) cs)"

definition re_findall :: "rx \<Rightarrow> pystr \<Rightarrow> pystr list" where
  "re_findall r s = findall_from r 0 s"

text \<open>\<^verbatim>\<open>re.sub(r'[...]', '', s)\<close> for a pattern that is one character class: the
  characters of the class are dropped.\<close>

definition re_sub_class :: "(nat \<Rightarrow> bool) \<Rightarrow> pystr \<Rightarrow> pystr" where
  "re_sub_class p s = filter (\<lambda>c. \<not> p c) s"

text \<open>Writing patterns: a literal string, with and without \<^verbatim>\<open>re.IGNORECASE\<close>; a
  concatenation; one character of a set.\<close>

definition chr :: "nat \<Rightarrow> rx" where
  "chr p = Atom (\<lambda>c. c = p)"

definition lit :: "pystr \<Rightarrow> rx" where
  "lit s = foldr (\<lambda>p r. Cat (chr p) r) s Eps"

definition liti :: "unicode_db \<Rightarrow> pystr \<Rightarrow> rx" where
  "liti U s = foldr (\<lambda>p r. Cat (Atom (lit_i U p)) r) s Eps"

definition cat :: "rx list \<Rightarrow> rx" where
  "cat rs = foldr Cat rs Eps"

definition alts :: "rx list \<Rightarrow> rx" where
  "alts rs = foldr Alt (butlast rs) (last rs)"

definition one_of :: "pystr \<Rightarrow> nat \<Rightarrow> bool" where
  "one_of cs c = (c \<in> set cs)"

section \<open>extractor.py\<close>

subsection \<open>The normalizers\<close>

text \<open>
  An argument is \<open>None\<close> for Python's \<^verbatim>\<open>None\<close> and \<open>Some s\<close> for a string; a result is
  \<open>Inr\<close> the returned value, or \<open>Inl\<close> the exception that leaves the function.

  \<^verbatim>\<open>return re.sub(r'[^\w\-]', '', str(numero).strip()) if numero else ""\<close>
\<close>

definition normalizar_numero :: "unicode_db \<Rightarrow> pystr option \<Rightarrow> py_error + pystr" where
  "normalizar_numero U numero =
     (case numero of
        None \<Rightarrow> Inr []
      | Some s \<Rightarrow>
          if s = [] then Inr []
          else Inr (re_sub_class (\<lambda>c. \<not> (is_word U c \<or> c = 45)) (py_strip U s)))"

text \<open>\<^verbatim>\<open>if not fecha: return ""\<close>; \<^verbatim>\<open>return re.sub(r'[^\d/.-]', '', fecha)[:10]\<close>\<close>

definition normalizar_fecha :: "unicode_db \<Rightarrow> pystr option \<Rightarrow> py_error + pystr" where
  "normalizar_fecha U fecha =
     (case fecha of
        None \<Rightarrow> Inr []
      | Some s \<Rightarrow>
          if s = [] then Inr []
          else Inr (take 10 (re_sub_class (\<lambda>c. \<not> (is_digit U c \<or> c = 47 \<or> c = 46 \<or> c = 45)) s)))"

text \<open>
  The two substitutions of \<open>normalizar_importe\<close>:
  \<^verbatim>\<open>re.sub(r'[EUR\s]', '', str(importe).strip())\<close> with the euro sign (8364) in the class
  too, then \<^verbatim>\<open>re.sub(r'[^\d.,]', '', importe.replace(',', '.'))\<close>.
\<close>

definition limpiar_importe :: "unicode_db \<Rightarrow> pystr \<Rightarrow> pystr" where
  "limpiar_importe U s =
     re_sub_class (\<lambda>c. \<not> (is_digit U c \<or> c = 46 \<or> c = 44))
       (py_replace [44] [46]
          (re_sub_class (\<lambda>c. c = 8364 \<or> c = 69 \<or> c = 85 \<or> c = 82 \<or> is_space U c) (py_strip U s)))"

text \<open>\<^verbatim>\<open>if not importe: return None\<close>; then \<^verbatim>\<open>try: return float(importe)\<close>,
  \<^verbatim>\<open>except: return None\<close>.\<close>

definition normalizar_importe :: "unicode_db \<Rightarrow> pystr option \<Rightarrow> py_error + pyfloat option" where
  "normalizar_importe U importe =
     (case importe of
        None \<Rightarrow> Inr None
      | Some s \<Rightarrow>
          if s = [] then Inr None
          else py_try (py_bind (py_float U (limpiar_importe U s)) (\<lambda>v. Inr (Some v))) (Inr None))"

subsection \<open>The patterns\<close>

text \<open>\<^verbatim>\<open>\s*\<close>, \<^verbatim>\<open>\s*[:\-\(\)]*\s*\<close>, \<^verbatim>\<open>[\d.,]\<close>, \<^verbatim>\<open>([\d.,]+)\<close>, \<^verbatim>\<open>.*?\<close> under \<^verbatim>\<open>re.DOTALL\<close>,
  \<^verbatim>\<open>[:\-]?\<close> and \<^verbatim>\<open>(\w+)\<close>.\<close>

definition sp :: "unicode_db \<Rightarrow> rx" where
  "sp U = Rep True 0 None (is_space U)"

definition sep :: "unicode_db \<Rightarrow> rx" where
  "sep U = cat [sp U, Rep True 0 None (one_of (py '':-()'')), sp U]"

definition num_char :: "unicode_db \<Rightarrow> nat \<Rightarrow> bool" where
  "num_char U c = (is_digit U c \<or> c = 46 \<or> c = 44)"

definition num_group :: "unicode_db \<Rightarrow> rx" where
  "num_group U = Grp (Rep True 1 None (num_char U))"

definition lazy_any :: rx where
  "lazy_any = Rep False 0 None (\<lambda>c. True)"

definition colon_dash :: rx where
  "colon_dash = Opt (Atom (one_of (py '':-'')))"

definition word_group :: "unicode_db \<Rightarrow> rx" where
  "word_group U = Grp (Rep True 1 None (is_word U))"

text \<open>\<^verbatim>\<open>r'[\d.,]{3,}(?:[.,]\d{2})?'\<close>\<close>

definition patron_importe :: "unicode_db \<Rightarrow> rx" where
  "patron_importe U =
     cat [Rep True 3 None (num_char U),
          Opt (cat [Atom (one_of (py ''.,'')), Rep True 2 (Some 2) (is_digit U)])]"

text \<open>
  \<open>patrones_universal\<close>, in the order of the source, each under
  \<^verbatim>\<open>re.IGNORECASE | re.DOTALL\<close>:
  \<^item> \<^verbatim>\<open>(?:Total\s*(?:factura|a pagar|final|en EUR)?|TOTAL|Importe total)\s*[:\-\(\)]*\s*([\d.,]+)\<close>
  \<^item> \<^verbatim>\<open>TOTAL\s*[:\-\(\)]*\s*([\d.,]+)\<close>
  \<^item> \<^verbatim>\<open>(?:Base\s*(?:imponible|imp\.?)|Subtotal|Neto?|IMPORTE\s*\(base imponible\))\s*[:\-\(\)]*\s*([\d.,]+)\<close>
  \<^item> \<^verbatim>\<open>base imponible\).*?([\d.,]+)\<close>
  \<^item> \<^verbatim>\<open>(?:IVA?|I\.V\.A\.?|IMPUESTOS\s*\(21|Impuesto|Cuota IVA)\s*[:\-\(\)]*\s*([\d.,]+)\<close>
  \<^item> \<^verbatim>\<open>\(21(?:\.00)?%?\s*IVA?\).*?([\d.,]+)\<close>
  \<^item> \<^verbatim>\<open>I\.V\.A\..*?([\d.,]+)\<close>
\<close>

definition patron_total_1 :: "unicode_db \<Rightarrow> rx" where
  "patron_total_1 U =
     cat [alts [cat [liti U (py ''Total''), sp U,
                     Opt (alts [liti U (py ''factura''), liti U (py ''a pagar''),
                                liti U (py ''final''), liti U (py ''en EUR'')])],
                liti U (py ''TOTAL''),
                liti U (py ''Importe total'')],
          sep U, num_group U]"

definition patron_total_2 :: "unicode_db \<Rightarrow> rx" where
  "patron_total_2 U = cat [liti U (py ''TOTAL''), sep U, num_group U]"

definition patron_base_1 :: "unicode_db \<Rightarrow> rx" where
  "patron_base_1 U =
     cat [alts [cat [liti U (py ''Base''), sp U,
                     alts [liti U (py ''imponible''), cat [liti U (py ''imp''), Opt (chr 46)]]],
                liti U (py ''Subtotal''),
                cat [liti U (py ''Net''), Opt (liti U (py ''o''))],
                cat [liti U (py ''IMPORTE''), sp U, liti U (py ''(base imponible)'')]],
          sep U, num_group U]"

definition patron_base_2 :: "unicode_db \<Rightarrow> rx" where
  "patron_base_2 U = cat [liti U (py ''base imponible)''), lazy_any, num_group U]"

definition patron_iva_1 :: "unicode_db \<Rightarrow> rx" where
  "patron_iva_1 U =
     cat [alts [cat [liti U (py ''IV''), Opt (liti U (py ''A''))],
                cat [liti U (py ''I.V.A''), Opt (chr 46)],
                cat [liti U (py ''IMPUESTOS''), sp U, liti U (py ''(21'')],
                liti U (py ''Impuesto''),
                liti U (py ''Cuota IVA'')],
          sep U, num_group U]"

definition patron_iva_2 :: "unicode_db \<Rightarrow> rx" where
  "patron_iva_2 U =
     cat [liti U (py ''(21''), Opt (liti U (py ''.00'')), Opt (chr 37), sp U,
          liti U (py ''IV''), Opt (liti U (py ''A'')), chr 41, lazy_any, num_group U]"

definition patron_iva_3 :: "unicode_db \<Rightarrow> rx" where
  "patron_iva_3 U = cat [liti U (py ''I.V.A.''), lazy_any, num_group U]"

definition patrones_universal :: "unicode_db \<Rightarrow> (rx \<times> string) list" where
  "patrones_universal U =
     [(patron_total_1 U, ''total''),
      (patron_total_2 U, ''total''),
      (patron_base_1 U, ''base_imponible''),
      (patron_base_2 U, ''base_imponible''),
      (patron_iva_1 U, ''iva''),
      (patron_iva_2 U, ''iva''),
      (patron_iva_3 U, ''iva'')]"

text \<open>
  The patterns of \<open>extraer_datos_factura_completo\<close>; the first four without flags, the
  last under \<^verbatim>\<open>re.IGNORECASE\<close>:
  \<^item> \<^verbatim>\<open>N(?:\.DEG|ORD)?\s*de?\s*factura\s*[:\-]?\s*(\w+)\<close>, where DEG is the degree sign and
    ORD the masculine ordinal
  \<^item> \<^verbatim>\<open>Numero\s*[:\-]?\s*(\w+)\<close>, with u-acute
  \<^item> \<^verbatim>\<open>Factura[:\-]?\s*(\w+)\<close>
  \<^item> \<^verbatim>\<open>Fecha\s+de?\s*(?:factura|facturacion|emision)\s*[:\-]?\s*([\d/\.-]{8,10})\<close>, with
    o-acute in the second and third alternative
  \<^item> \<^verbatim>\<open>(?:CIF|NIF|IVA:\s*)([A-Z]\d{8}[A-Z]?)\<close>
\<close>

definition patron_numero_1 :: "unicode_db \<Rightarrow> rx" where
  "patron_numero_1 U =
     cat [lit (py ''N''), Opt (alts [lit [46, 176], lit [186]]), sp U,
          lit (py ''d''), Opt (chr 101), sp U, lit (py ''factura''), sp U,
          colon_dash, sp U, word_group U]"

definition patron_numero_2 :: "unicode_db \<Rightarrow> rx" where
  "patron_numero_2 U =
     cat [lit (py ''N'' @ [250] @ py ''mero''), sp U, colon_dash, sp U, word_group U]"

definition patron_numero_3 :: "unicode_db \<Rightarrow> rx" where
  "patron_numero_3 U = cat [lit (py ''Factura''), colon_dash, sp U, word_group U]"

definition patron_fecha :: "unicode_db \<Rightarrow> rx" where
  "patron_fecha U =
     cat [lit (py ''Fecha''), Rep True 1 None (is_space U), lit (py ''d''), Opt (chr 101), sp U,
          alts [lit (py ''factura''),
                lit (py ''facturaci'' @ [243] @ py ''n''),
                lit (py ''emisi'' @ [243] @ py ''n'')],
          sp U, colon_dash, sp U,
          Grp (Rep True 8 (Some 10) (\<lambda>c. is_digit U c \<or> c = 47 \<or> c = 46 \<or> c = 45))]"

definition patron_nif :: "unicode_db \<Rightarrow> rx" where
  "patron_nif U =
     cat [alts [liti U (py ''CIF''), liti U (py ''NIF''), cat [liti U (py ''IVA:''), sp U]],
          Grp (cat [Atom (upper_range_i U), Rep True 8 (Some 8) (is_digit U),
                    Opt (Atom (upper_range_i U))])]"

subsection \<open>extraer\_importes\_universal\<close>

text \<open>The dictionary \<open>resultado\<close>: keys are strings, values \<^verbatim>\<open>Optional[float]\<close>.
  \<^verbatim>\<open>d[k]\<close> raises \<^verbatim>\<open>KeyError\<close> on a missing key.\<close>

type_synonym importes = "string \<rightharpoonup> pyfloat option"

definition py_getitem :: "importes \<Rightarrow> string \<Rightarrow> py_error + pyfloat option" where
  "py_getitem d k = (case d k of None \<Rightarrow> Inl KeyError | Some v \<Rightarrow> Inr v)"

definition resultado_inicial :: importes where
  "resultado_inicial = [''total'' \<mapsto> None, ''base_imponible'' \<mapsto> None, ''iva'' \<mapsto> None]"

text \<open>\<^verbatim>\<open>texto[-3000:]\<close>\<close>

definition zona_resumen :: "pystr \<Rightarrow> pystr" where
  "zona_resumen texto = drop (length texto - 3000) texto"

text \<open>\<^verbatim>\<open>[normalizar_importe(x) for x in todos_importes if normalizar_importe(x)]\<close>\<close>

fun importes_normalizados :: "unicode_db \<Rightarrow> pystr list \<Rightarrow> py_error + pyfloat option list" where
  "importes_normalizados U [] = Inr []"
| "importes_normalizados U (x # xs) =
     (case normalizar_importe U (Some x) of
        Inl e \<Rightarrow> Inl e
      | Inr c \<Rightarrow>
          if truthy c
          then (case normalizar_importe U (Some x) of
                  Inl e \<Rightarrow> Inl e
                | Inr v \<Rightarrow>
                    (case importes_normalizados U xs of
                       Inl e \<Rightarrow> Inl e
                     | Inr vs \<Rightarrow> Inr (v # vs)))
          else importes_normalizados U xs)"

text \<open>
  The body of the loop over \<open>patrones_universal\<close>:
  \<^verbatim>\<open>match = re.search(patron, zona_resumen, re.IGNORECASE | re.DOTALL)\<close>;
  \<^verbatim>\<open>if match and not resultado[campo]:\<close> \<^verbatim>\<open>valor = normalizar_importe(match.group(1))\<close>;
  \<^verbatim>\<open>if valor: resultado[campo] = valor\<close>.
\<close>

definition aplicar_patron :: "unicode_db \<Rightarrow> pystr \<Rightarrow> rx \<times> string \<Rightarrow> importes \<Rightarrow> py_error + importes" where
  "aplicar_patron U zona pc res =
     (case re_search (fst pc) zona of
        None \<Rightarrow> Inr res
      | Some g \<Rightarrow>
          py_bind (py_getitem res (snd pc)) (\<lambda>actual.
            if truthy actual then Inr res
            else py_bind (normalizar_importe U g) (\<lambda>valor.
              if truthy valor then Inr (res(snd pc \<mapsto> valor)) else Inr res)))"

fun buscar_patrones :: "unicode_db \<Rightarrow> pystr \<Rightarrow> (rx \<times> string) list \<Rightarrow> importes \<Rightarrow> py_error + importes" where
  "buscar_patrones U zona [] res = Inr res"
| "buscar_patrones U zona (pc # ps) res =
     (case aplicar_patron U zona pc res of
        Inl e \<Rightarrow> Inl e
      | Inr res' \<Rightarrow> buscar_patrones U zona ps res')"

text \<open>
  The fallback. The float literals \<^verbatim>\<open>0.7\<close> and \<^verbatim>\<open>0.95\<close> are the doubles nearest to 7/10
  and 19/20. Arithmetic and comparison on \<^verbatim>\<open>None\<close> raise \<^verbatim>\<open>TypeError\<close>.
  \<^verbatim>\<open>0.7 * resultado['total'] <= imp <= 0.95 * resultado['total']\<close>
\<close>

definition as_float :: "pyfloat option \<Rightarrow> py_error + pyfloat" where
  "as_float v = (case v of None \<Rightarrow> Inl TypeError | Some x \<Rightarrow> Inr x)"

definition banda :: "pyfloat \<Rightarrow> pyfloat \<Rightarrow> bool" where
  "banda t v = (fle (fmul (round_double (7 / 10)) t) v \<and> fle v (fmul (round_double (19 / 20)) t))"

definition en_banda :: "pyfloat option \<Rightarrow> pyfloat option \<Rightarrow> py_error + bool" where
  "en_banda total_v imp =
     py_bind (as_float total_v) (\<lambda>t. py_bind (as_float imp) (\<lambda>v. Inr (banda t v)))"

text \<open>\<^verbatim>\<open>for imp in importes_normalizados:\<close> \<^verbatim>\<open>if ...: resultado['base_imponible'] = imp\<close>;
  \<^verbatim>\<open>break\<close>. The result is the \<open>imp\<close> the loop breaks at, if any.\<close>

fun primero_en_banda :: "pyfloat option \<Rightarrow> pyfloat option list \<Rightarrow> py_error + pyfloat option option" where
  "primero_en_banda total_v [] = Inr None"
| "primero_en_banda total_v (imp # imps) =
     (case en_banda total_v imp of
        Inl e \<Rightarrow> Inl e
      | Inr b \<Rightarrow> if b then Inr (Some imp) else primero_en_banda total_v imps)"

text \<open>\<^verbatim>\<open>if resultado['total'] and not resultado['base_imponible']:\<close> and the loop.\<close>

definition fallback_base :: "importes \<Rightarrow> pyfloat option list \<Rightarrow> py_error + importes" where
  "fallback_base res pool =
     py_bind (py_getitem res ''total'') (\<lambda>t.
       if truthy t
       then py_bind (py_getitem res ''base_imponible'') (\<lambda>b.
              if truthy b then Inr res
              else py_bind (primero_en_banda t pool) (\<lambda>found.
                     case found of
                       None \<Rightarrow> Inr res
                     | Some imp \<Rightarrow> Inr (res(''base_imponible'' \<mapsto> imp))))
       else Inr res)"

definition extraer_importes_universal :: "unicode_db \<Rightarrow> pystr \<Rightarrow> py_error + importes" where
  "extraer_importes_universal U texto =
     py_bind (importes_normalizados U (re_findall (patron_importe U) (zona_resumen texto))) (\<lambda>pool.
       py_bind (buscar_patrones U (zona_resumen texto) (patrones_universal U) resultado_inicial) (\<lambda>res.
         fallback_base res pool))"

subsection \<open>extraer\_datos\_factura\_completo\<close>

text \<open>The dictionary \<open>datos\<close> has the same eight keys on every path: a record.
  \<^verbatim>\<open>datos.update(importes)\<close> overwrites the keys \<open>importes\<close> has.\<close>

record datos_factura =
  numero_factura :: pystr
  fecha_factura :: pystr
  proveedor :: pystr
  cliente :: pystr
  base_imponible :: "pyfloat option"
  iva :: "pyfloat option"
  total :: "pyfloat option"
  nombre_fichero :: pystr

definition datos_update :: "datos_factura \<Rightarrow> importes \<Rightarrow> datos_factura" where
  "datos_update d m =
     d\<lparr>base_imponible := (case m ''base_imponible'' of None \<Rightarrow> base_imponible d | Some v \<Rightarrow> v),
       iva := (case m ''iva'' of None \<Rightarrow> iva d | Some v \<Rightarrow> v),
       total := (case m ''total'' of None \<Rightarrow> total d | Some v \<Rightarrow> v)\<rparr>"

text \<open>\<^verbatim>\<open>re.search(p1, texto) or re.search(p2, texto) or re.search(p3, texto)\<close>\<close>

definition numero_match :: "unicode_db \<Rightarrow> pystr \<Rightarrow> pystr option option" where
  "numero_match U texto =
     (case re_search (patron_numero_1 U) texto of
        Some g \<Rightarrow> Some g
      | None \<Rightarrow>
          (case re_search (patron_numero_2 U) texto of
             Some g \<Rightarrow> Some g
           | None \<Rightarrow> re_search (patron_numero_3 U) texto))"

text \<open>\<^verbatim>\<open>nif_match.group(1)[:50]\<close>: slicing \<^verbatim>\<open>None\<close> raises \<^verbatim>\<open>TypeError\<close>.\<close>

definition slice50 :: "pystr option \<Rightarrow> py_error + pystr" where
  "slice50 g = (case g of None \<Rightarrow> Inl TypeError | Some t \<Rightarrow> Inr (take 50 t))"

definition extraer_datos_factura_completo :: "unicode_db \<Rightarrow> pystr \<Rightarrow> pystr \<Rightarrow> py_error + datos_factura" where
  "extraer_datos_factura_completo U texto nombre =
     py_bind (case numero_match U texto of
                Some g \<Rightarrow> normalizar_numero U g
              | None \<Rightarrow> Inr (py_replace (py ''.pdf'') [] nombre)) (\<lambda>numero.
       py_bind (case re_search (patron_fecha U) texto of
                  Some g \<Rightarrow> normalizar_fecha U g
                | None \<Rightarrow> Inr []) (\<lambda>fecha.
         py_bind (extraer_importes_universal U texto) (\<lambda>imps.
           py_bind (case re_search (patron_nif U) texto of
                      Some g \<Rightarrow> slice50 g
                    | None \<Rightarrow> Inr []) (\<lambda>nif.
             Inr ((datos_update
                    \<lparr>numero_factura = numero, fecha_factura = fecha, proveedor = [], cliente = [],
                     base_imponible = None, iva = None, total = None, nombre_fichero = nombre\<rparr>
                    imps)\<lparr>proveedor := nif\<rparr>)))))"

section \<open>Notions used to state the properties\<close>

text \<open>The character database with nothing above ASCII: no digit, letter or blank there,
  and no case. It is the database at which the theorems are instantiated.\<close>

definition ascii_db :: unicode_db where
  "ascii_db = \<lparr>uni_decimal = (\<lambda>c. None), uni_alnum = (\<lambda>c. False),
               uni_space = (\<lambda>c. False), uni_lower = (\<lambda>c. c)\<rparr>"

text \<open>The pool of the fallback as a list of floats: of every token, the amount it
  normalizes to, when that is an amount other than \<open>0.0\<close>.\<close>

definition candidato :: "unicode_db \<Rightarrow> pystr \<Rightarrow> pyfloat option" where
  "candidato U x =
     (case normalizar_importe U (Some x) of
        Inl e \<Rightarrow> None
      | Inr None \<Rightarrow> None
      | Inr (Some v) \<Rightarrow> if v = Fin 0 then None else Some v)"

definition candidatos :: "unicode_db \<Rightarrow> pystr list \<Rightarrow> pyfloat list" where
  "candidatos U xs = List.map_filter (candidato U) xs"

text \<open>The first amount of a pool in the band of a total.\<close>

definition primero :: "pyfloat \<Rightarrow> pyfloat option list \<Rightarrow> pyfloat option option" where
  "primero t pool = find (\<lambda>imp. case imp of None \<Rightarrow> False | Some v \<Rightarrow> banda t v) pool"

text \<open>
  The words of the specification for the fallback of the invoice number: the file name
  with its extension removed, the extension being the last dot and what follows it.
\<close>

definition sin_extension :: "pystr \<Rightarrow> pystr" where
  "sin_extension n = (if 46 \<in> set n then rev (tl (dropWhile (\<lambda>c. c \<noteq> 46) (rev n))) else n)"

text \<open>The texts of the examples. \<open>[10]\<close> is the newline.\<close>

definition texto_85 :: pystr where
  "texto_85 = py ''Total: 100,00'' @ [10] @ py ''85,00''"

definition texto_50 :: pystr where
  "texto_50 = py ''Total: 100,00'' @ [10] @ py ''50,00''"

definition texto_prioridad :: pystr where
  "texto_prioridad = py ''Total: 100,00'' @ [10] @ py ''TOTAL: 200,00''"

definition texto_cero :: pystr where
  "texto_cero = py ''Total factura 0,00 total 5''"

definition texto_factura :: pystr where
  "texto_factura =
     py ''Factura: A123'' @ [10] @ py ''Fecha de factura: 01/02/2024'' @ [10] @
     py ''Base imponible: 80,00'' @ [10] @ py ''IVA: 16,80'' @ [10] @
     py ''Total: 96,80'' @ [10] @ py ''CIF: B12345678''"

definition texto_sin_etiquetas :: pystr where
  "texto_sin_etiquetas = py ''hola''"

section \<open>Properties\<close>

lemma py_float_cases: "(\<exists>v. py_float U s = Inr v) \<or> py_float U s = Inl ValueError"
  by (simp add: py_float_def Let_def)

lemma normalizar_importe_Inr: "\<exists>r. normalizar_importe U x = Inr r"
  using py_float_cases [of U "limpiar_importe U (the x)"]
  by (auto simp: normalizar_importe_def py_try_def py_bind_def split: option.splits)

lemma normalizar_numero_Inr: "\<exists>r. normalizar_numero U x = Inr r"
  by (simp add: normalizar_numero_def split: option.splits)

lemma normalizar_fecha_Inr: "\<exists>r. normalizar_fecha U x = Inr r"
  by (simp add: normalizar_fecha_def split: option.splits)

text \<open>
  Claim C6. For every string, and for \<^verbatim>\<open>None\<close>, each of \<open>normalizar_numero\<close>,
  \<open>normalizar_fecha\<close> and \<open>normalizar_importe\<close> returns a value (no exception leaves it:
  the \<^verbatim>\<open>ValueError\<close> of \<^verbatim>\<open>float\<close> is caught), and the empty string and \<^verbatim>\<open>None\<close> give the
  empty string, the empty string and \<^verbatim>\<open>None\<close>.
\<close>

theorem normalizers_never_raise:
  "(\<exists>r. normalizar_numero U x = Inr r) \<and> (\<exists>r. normalizar_fecha U x = Inr r) \<and>
   (\<exists>r. normalizar_importe U x = Inr r) \<and>
   normalizar_numero U None = Inr [] \<and> normalizar_numero U (Some []) = Inr [] \<and>
   normalizar_fecha U None = Inr [] \<and> normalizar_fecha U (Some []) = Inr [] \<and>
   normalizar_importe U None = Inr None \<and> normalizar_importe U (Some []) = Inr None"
  using normalizar_importe_Inr [of U x] normalizar_numero_Inr [of U x] normalizar_fecha_Inr [of U x]
  by (simp add: normalizar_numero_def normalizar_fecha_def normalizar_importe_def)

lemma zona_resumen_short: "length t \<le> 3000 \<Longrightarrow> zona_resumen t = t"
  by (simp add: zona_resumen_def)

lemma zona_resumen_append: "3000 \<le> length w \<Longrightarrow> zona_resumen (pre @ w) = drop (length w - 3000) w"
  by (simp add: zona_resumen_def)

lemma zona_resumen_same: "3000 \<le> length w \<Longrightarrow> zona_resumen (pre @ w) = zona_resumen w"
  by (simp add: zona_resumen_def)

lemma zona_resumen_length: "length (zona_resumen t) = min (length t) 3000"
  by (simp add: zona_resumen_def)

text \<open>
  Claim C4. \<open>extraer_importes_universal\<close> reads the last 3000 characters of the text
  only, and the whole text when it has at most 3000: whatever stands before a window
  \<open>w\<close> of 3000 characters or more changes nothing of the result, so it gives neither
  a labelled match nor a candidate of the fallback.
\<close>

theorem trailing_window_only:
  "(length t \<le> 3000 \<longrightarrow> zona_resumen t = t) \<and>
   (3000 \<le> length w \<longrightarrow>
      zona_resumen (pre @ w) = drop (length w - 3000) w \<and>
      length (zona_resumen (pre @ w)) = 3000 \<and>
      extraer_importes_universal U (pre @ w) = extraer_importes_universal U w)"
proof -
  have a: "length t \<le> 3000 \<longrightarrow> zona_resumen t = t"
    by (simp add: zona_resumen_short)
  have b: "3000 \<le> length w \<longrightarrow>
      zona_resumen (pre @ w) = drop (length w - 3000) w \<and> length (zona_resumen (pre @ w)) = 3000"
    by (simp add: zona_resumen_append zona_resumen_length)
  have c: "3000 \<le> length w \<longrightarrow>
      extraer_importes_universal U (pre @ w) = extraer_importes_universal U w"
    by (simp add: extraer_importes_universal_def zona_resumen_same)
  from a b c show ?thesis by blast
qed


theorem trailing_window_only_witness:
  "length (py ''Total: 100,00'') \<le> 3000 \<and> zona_resumen (py ''Total: 100,00'') = py ''Total: 100,00'' \<and>
   3000 \<le> length (replicate 3000 (32::nat)) \<and>
   zona_resumen (py ''Total: 100,00'' @ replicate 3000 32) = replicate 3000 32 \<and>
   extraer_importes_universal ascii_db (py ''Total: 100,00'' @ replicate 3000 32) =
     extraer_importes_universal ascii_db (replicate 3000 32)"
  using trailing_window_only [of "py ''Total: 100,00''" "replicate 3000 32" "py ''Total: 100,00''" ascii_db]
  by (simp add: py_def)

lemma rep_max_from_cont:
  "rep_max p lo hi k s = Some x \<Longrightarrow>
     \<exists>n. lo \<le> n \<and> n \<le> length s \<and> list_all p (take n s) \<and> k (drop n s) = Some x"
proof (induction s arbitrary: lo hi)
  case Nil
  then show ?case by (auto split: if_splits)
next
  case (Cons c cs)
  show ?case
  proof (cases "p c \<and> hi \<noteq> Some 0")
    case True
    show ?thesis
    proof (cases "rep_max p (lo - 1) (map_option (\<lambda>h. h - 1) hi) k cs")
      case None
      with True Cons.prems have "lo = 0" "k (c # cs) = Some x" by (auto split: if_splits)
      then show ?thesis by (intro exI [of _ 0]) simp
    next
      case (Some r)
      with True Cons.prems have "r = x" by simp
      with Some Cons.IH obtain n where n: "lo - 1 \<le> n" "n \<le> length cs" "list_all p (take n cs)"
        "k (drop n cs) = Some x" by blast
      with True show ?thesis by (intro exI [of _ "Suc n"]) auto
    qed
  next
    case False
    with Cons.prems have "lo = 0" "k (c # cs) = Some x" by (auto split: if_splits)
    then show ?thesis by (intro exI [of _ 0]) simp
  qed
qed

lemma rep_min_from_cont:
  "rep_min p lo hi k s = Some x \<Longrightarrow>
     \<exists>n. lo \<le> n \<and> n \<le> length s \<and> list_all p (take n s) \<and> k (drop n s) = Some x"
proof (induction s arbitrary: lo hi)
  case Nil
  then show ?case by (auto split: if_splits)
next
  case (Cons c cs)
  show ?case
  proof (cases "0 < lo")
    case True
    with Cons.prems have pc: "p c" and r: "rep_min p (lo - 1) (map_option (\<lambda>h. h - 1) hi) k cs = Some x"
      by (auto split: if_splits)
    from Cons.IH [OF r] obtain n where n: "lo - 1 \<le> n" "n \<le> length cs" "list_all p (take n cs)"
        "k (drop n cs) = Some x" by blast
    with pc True show ?thesis by (intro exI [of _ "Suc n"]) auto
  next
    case False
    show ?thesis
    proof (cases "k (c # cs)")
      case (Some r)
      with False Cons.prems have "r = x" by simp
      with Some False show ?thesis by (intro exI [of _ 0]) simp
    next
      case None
      with False Cons.prems have pc: "p c" and r: "rep_min p 0 (map_option (\<lambda>h. h - 1) hi) k cs = Some x"
        by (auto split: if_splits)
      from Cons.IH [OF r] obtain n where n: "n \<le> length cs" "list_all p (take n cs)"
        "k (drop n cs) = Some x" by blast
      with pc False show ?thesis by (intro exI [of _ "Suc n"]) auto
    qed
  qed
qed

text \<open>Whatever a match returns was returned by the continuation, on a suffix of the text.\<close>

lemma bt_from_cont:
  "bt r k s g = Some x \<Longrightarrow> \<exists>s' g'. length s' \<le> length s \<and> k s' g' = Some x"
proof (induction r arbitrary: k s g)
  case Eps
  then show ?case by auto
next
  case (Atom p)
  then show ?case by (cases s) (auto split: if_splits intro: le_SucI)
next
  case (Cat a b)
  from Cat.prems have "bt a (\<lambda>s' g'. bt b k s' g') s g = Some x" by simp
  from Cat.IH(1) [OF this] obtain s1 g1 where 1: "length s1 \<le> length s" "bt b k s1 g1 = Some x" by blast
  from Cat.IH(2) [OF 1(2)] obtain s2 g2 where "length s2 \<le> length s1" "k s2 g2 = Some x" by blast
  with 1 show ?case by (intro exI [of _ s2] exI [of _ g2]) simp
next
  case (Alt a b)
  then show ?case by (cases "bt a k s g") auto
next
  case (Opt a)
  then show ?case by (cases "bt a k s g") auto
next
  case (Rep greedy lo hi p)
  show ?case
  proof (cases greedy)
    case True
    with Rep have "rep_max p lo hi (\<lambda>s'. k s' g) s = Some x" by simp
    from rep_max_from_cont [OF this] show ?thesis by (metis length_drop diff_le_self)
  next
    case False
    with Rep have "rep_min p lo hi (\<lambda>s'. k s' g) s = Some x" by simp
    from rep_min_from_cont [OF this] show ?thesis by (metis length_drop diff_le_self)
  qed
next
  case (Grp a)
  from Grp.prems have "bt a (\<lambda>s' g'. k s' (Some (take (length s - length s') s))) s g = Some x" by simp
  from Grp.IH [OF this] show ?case by blast
qed

lemma truthy_iff: "truthy v \<longleftrightarrow> v \<noteq> None \<and> v \<noteq> Some (Fin 0)"
  by (auto simp: truthy_def float_truthy_def split: option.splits pyfloat.splits)

lemma importes_normalizados_Inr:
  "\<exists>vs. importes_normalizados U xs = Inr vs \<and> list_all truthy vs"
proof (induction xs)
  case Nil
  then show ?case by simp
next
  case (Cons x xs)
  obtain c where c: "normalizar_importe U (Some x) = Inr c"
    using normalizar_importe_Inr by blast
  from Cons obtain vs where vs: "importes_normalizados U xs = Inr vs" "list_all truthy vs" by blast
  show ?case using c vs by simp
qed

lemma py_getitem_Some: "res k = Some v \<Longrightarrow> py_getitem res k = Inr v"
  by (simp add: py_getitem_def)

text \<open>One pattern: no exception when the field is a key; keys stay; a field that holds a
  true amount keeps it; no \<open>0.0\<close> is stored.\<close>

lemma aplicar_patron_cases:
  assumes "res (snd pc) = Some actual"
  shows "aplicar_patron U zona pc res = Inr res \<or>
         (\<exists>g valor. re_search (fst pc) zona = Some g \<and> \<not> truthy actual \<and>
            normalizar_importe U g = Inr valor \<and> truthy valor \<and>
            aplicar_patron U zona pc res = Inr (res(snd pc \<mapsto> valor)))"
proof (cases "re_search (fst pc) zona")
  case None
  then show ?thesis by (simp add: aplicar_patron_def)
next
  case (Some g)
  obtain valor where v: "normalizar_importe U g = Inr valor"
    using normalizar_importe_Inr by blast
  show ?thesis using Some v assms
    by (simp add: aplicar_patron_def py_bind_def py_getitem_def)
qed

lemma aplicar_patron_dom:
  assumes "snd pc \<in> dom res"
  shows "\<exists>res'. aplicar_patron U zona pc res = Inr res' \<and> dom res' = dom res"
proof -
  from assms obtain actual where a: "res (snd pc) = Some actual" by auto
  from aplicar_patron_cases [where res = res and pc = pc and U = U and zona = zona, OF a] assms show ?thesis by auto
qed

lemma aplicar_patron_keeps:
  assumes "aplicar_patron U zona pc res = Inr res'" and "res k = Some v" and "truthy v"
  shows "res' k = Some v"
proof (cases "k = snd pc")
  case True
  with assms(2) have a: "res (snd pc) = Some v" by simp
  from aplicar_patron_cases [where res = res and pc = pc and U = U and zona = zona, OF a] assms show ?thesis by auto
next
  case False
  show ?thesis
  proof (cases "res (snd pc)")
    case None
    with assms(1,2) show ?thesis
      by (cases "re_search (fst pc) zona") (auto simp: aplicar_patron_def py_bind_def py_getitem_def)
  next
    case (Some actual)
    from aplicar_patron_cases [where res = res and pc = pc and U = U and zona = zona, OF Some] assms False show ?thesis by auto
  qed
qed

lemma aplicar_patron_no_zero:
  assumes "aplicar_patron U zona pc res = Inr res'" and "Some (Fin 0) \<notin> ran res"
  shows "Some (Fin 0) \<notin> ran res'"
proof (cases "res (snd pc)")
  case None
  with assms show ?thesis
    by (cases "re_search (fst pc) zona") (auto simp: aplicar_patron_def py_bind_def py_getitem_def)
next
  case (Some actual)
  from aplicar_patron_cases [where res = res and pc = pc and U = U and zona = zona, OF Some] assms show ?thesis
    by (auto simp: ran_def truthy_iff split: if_splits)
qed

lemma buscar_patrones_append:
  "buscar_patrones U zona (ps1 @ ps2) res =
     (case buscar_patrones U zona ps1 res of Inl e \<Rightarrow> Inl e | Inr r1 \<Rightarrow> buscar_patrones U zona ps2 r1)"
  by (induction ps1 arbitrary: res) (auto split: sum.splits)

lemma buscar_patrones_dom:
  "snd ` set ps \<subseteq> dom res \<Longrightarrow> \<exists>res'. buscar_patrones U zona ps res = Inr res' \<and> dom res' = dom res"
proof (induction ps arbitrary: res)
  case Nil
  then show ?case by simp
next
  case (Cons pc ps)
  then have "snd pc \<in> dom res" by simp
  from aplicar_patron_dom [OF this, of U zona] obtain r1 where
    r1: "aplicar_patron U zona pc res = Inr r1" "dom r1 = dom res" by blast
  with Cons.prems have "snd ` set ps \<subseteq> dom r1" by simp
  from Cons.IH [OF this] r1 show ?case by auto
qed

lemma buscar_patrones_keeps:
  "buscar_patrones U zona ps res = Inr res' \<Longrightarrow> res k = Some v \<Longrightarrow> truthy v \<Longrightarrow> res' k = Some v"
proof (induction ps arbitrary: res)
  case Nil
  then show ?case by simp
next
  case (Cons pc ps)
  from Cons.prems(1) obtain r1 where r1: "aplicar_patron U zona pc res = Inr r1"
    "buscar_patrones U zona ps r1 = Inr res'" by (auto split: sum.splits)
  from aplicar_patron_keeps [OF r1(1) Cons.prems(2,3)] have "r1 k = Some v" .
  from Cons.IH [OF r1(2) this Cons.prems(3)] show ?case .
qed

lemma buscar_patrones_no_zero:
  "buscar_patrones U zona ps res = Inr res' \<Longrightarrow> Some (Fin 0) \<notin> ran res \<Longrightarrow> Some (Fin 0) \<notin> ran res'"
proof (induction ps arbitrary: res)
  case Nil
  then show ?case by simp
next
  case (Cons pc ps)
  from Cons.prems(1) obtain r1 where r1: "aplicar_patron U zona pc res = Inr r1"
    "buscar_patrones U zona ps r1 = Inr res'" by (auto split: sum.splits)
  from aplicar_patron_no_zero [OF r1(1) Cons.prems(2)] Cons.IH [OF r1(2)] show ?case by blast
qed

lemma resultado_inicial_dom: "dom resultado_inicial = {''total'', ''base_imponible'', ''iva''}"
  by (auto simp: resultado_inicial_def split: if_splits)

lemma resultado_inicial_no_zero: "Some (Fin 0) \<notin> ran resultado_inicial"
  by (auto simp: resultado_inicial_def ran_def split: if_splits)

lemma patrones_universal_campos:
  "snd ` set (patrones_universal U) \<subseteq> {''total'', ''base_imponible'', ''iva''}"
  by (simp add: patrones_universal_def)

lemma primero_en_banda_find:
  "list_all truthy pool \<Longrightarrow> primero_en_banda (Some t) pool = Inr (primero t pool)"
  by (induction pool)
     (auto simp: primero_def en_banda_def as_float_def py_bind_def truthy_iff)

lemma fallback_base_eq:
  assumes "res ''total'' = Some tv" and "res ''base_imponible'' = Some bv" and "list_all truthy pool"
  shows "fallback_base res pool =
           Inr (if truthy tv \<and> \<not> truthy bv
                then (case primero (the tv) pool of None \<Rightarrow> res | Some imp \<Rightarrow> res(''base_imponible'' \<mapsto> imp))
                else res)"
proof (cases "truthy tv \<and> \<not> truthy bv")
  case False
  with assms show ?thesis by (auto simp: fallback_base_def py_bind_def py_getitem_def)
next
  case True
  then obtain t where t: "tv = Some t" by (auto simp: truthy_iff)
  from primero_en_banda_find [OF assms(3), of t] t True assms show ?thesis
    by (auto simp: fallback_base_def py_bind_def py_getitem_def split: option.splits)
qed

lemma importes_normalizados_candidatos:
  "importes_normalizados U xs = Inr (map Some (candidatos U xs))"
proof (induction xs)
  case Nil
  then show ?case by (simp add: candidatos_def map_filter_simps)
next
  case (Cons x xs)
  obtain c where c: "normalizar_importe U (Some x) = Inr c"
    using normalizar_importe_Inr by blast
  show ?case
  proof (cases "truthy c")
    case True
    then obtain v where "c = Some v" "v \<noteq> Fin 0" by (auto simp: truthy_iff)
    with c Cons True show ?thesis by (simp add: candidatos_def candidato_def map_filter_simps)
  next
    case False
    then have "c = None \<or> c = Some (Fin 0)" by (auto simp: truthy_iff)
    with c Cons False show ?thesis by (auto simp: candidatos_def candidato_def map_filter_simps)
  qed
qed

lemma candidatos_no_zero: "Fin 0 \<notin> set (candidatos U xs)"
  by (auto simp: candidatos_def map_filter_def candidato_def split: sum.splits option.splits if_splits)

lemma candidatos_truthy: "list_all truthy (map Some (candidatos U xs))"
  using candidatos_no_zero [of U xs] by (auto simp: list_all_iff truthy_iff)

lemma primero_candidatos:
  "primero t (map Some vs) = map_option Some (find (banda t) vs)"
  by (induction vs) (auto simp: primero_def)

text \<open>The loop always ends with the three keys and without a stored \<open>0.0\<close>.\<close>

lemma buscar_patrones_universal:
  obtains res where
    "buscar_patrones U zona (patrones_universal U) resultado_inicial = Inr res"
    "dom res = {''total'', ''base_imponible'', ''iva''}"
    "Some (Fin 0) \<notin> ran res"
proof -
  have "snd ` set (patrones_universal U) \<subseteq> dom resultado_inicial"
    using patrones_universal_campos by (simp add: resultado_inicial_dom)
  from buscar_patrones_dom [OF this, of U zona] obtain res where
    r: "buscar_patrones U zona (patrones_universal U) resultado_inicial = Inr res"
       "dom res = dom resultado_inicial" by blast
  from buscar_patrones_no_zero [OF r(1) resultado_inicial_no_zero] r that show ?thesis
    by (simp add: resultado_inicial_dom)
qed

lemma extraer_importes_universal_eq:
  assumes "buscar_patrones U (zona_resumen texto) (patrones_universal U) resultado_inicial = Inr res"
  shows "extraer_importes_universal U texto =
           fallback_base res (map Some (candidatos U (re_findall (patron_importe U) (zona_resumen texto))))"
  using assms by (simp add: extraer_importes_universal_def importes_normalizados_candidatos py_bind_def)

lemma fallback_candidatos:
  assumes "res ''total'' = Some tv" and "res ''base_imponible'' = Some bv" and "bv \<noteq> Some (Fin 0)"
  shows "fallback_base res (map Some (candidatos U xs)) =
           Inr (if truthy tv \<and> \<not> truthy bv
                then res(''base_imponible'' \<mapsto> find (banda (the tv)) (candidatos U xs))
                else res)"
  using fallback_base_eq [OF assms(1,2) candidatos_truthy, of U xs] assms
  by (auto simp: primero_candidatos fun_eq_iff truthy_iff split: option.splits)

lemma ran_no_zero: "Some (Fin 0) \<notin> ran res \<Longrightarrow> res k = Some v \<Longrightarrow> v \<noteq> Some (Fin 0)"
  by (auto simp: ran_def)

lemma buscar_patrones_universal_inv:
  assumes loop: "buscar_patrones U zona (patrones_universal U) resultado_inicial = Inr res"
  shows "dom res = {''total'', ''base_imponible'', ''iva''} \<and> Some (Fin 0) \<notin> ran res"
proof -
  obtain res0 where r0: "buscar_patrones U zona (patrones_universal U) resultado_inicial = Inr res0"
    "dom res0 = {''total'', ''base_imponible'', ''iva''}" "Some (Fin 0) \<notin> ran res0"
    by (rule buscar_patrones_universal)
  from r0(1) loop have "res0 = res" by simp
  with r0(2,3) show ?thesis by (intro conjI) simp_all
qed

lemma tres_campos:
  assumes res: "dom res = {''total'', ''base_imponible'', ''iva''}"
  obtains tv bv where "res ''total'' = Some tv" "res ''base_imponible'' = Some bv"
proof -
  have "''total'' \<in> dom res" unfolding res by (rule insertI1)
  then obtain tv where tv: "res ''total'' = Some tv" by (auto simp only: dom_def mem_Collect_eq)
  have "''base_imponible'' \<in> dom res" unfolding res by (rule insertI2) (rule insertI1)
  then obtain bv where bv: "res ''base_imponible'' = Some bv" by (auto simp only: dom_def mem_Collect_eq)
  show ?thesis by (rule that [OF tv bv])
qed

lemma extraer_importes_universal_result:
  assumes loop: "buscar_patrones U (zona_resumen texto) (patrones_universal U) resultado_inicial = Inr res"
  obtains tv bv where
    "res ''total'' = Some tv" "res ''base_imponible'' = Some bv" "bv \<noteq> Some (Fin 0)" "tv \<noteq> Some (Fin 0)"
    "extraer_importes_universal U texto =
       Inr (if truthy tv \<and> \<not> truthy bv
            then res(''base_imponible'' \<mapsto>
                   find (banda (the tv)) (candidatos U (re_findall (patron_importe U) (zona_resumen texto))))
            else res)"
proof -
  note inv = buscar_patrones_universal_inv [OF loop]
  from inv have d: "dom res = {''total'', ''base_imponible'', ''iva''}" by (rule conjunct1)
  from inv have nz: "Some (Fin 0) \<notin> ran res" by (rule conjunct2)
  obtain tv bv where
    tv: "res ''total'' = Some tv" and bv: "res ''base_imponible'' = Some bv" by (rule tres_campos [OF d])
  from nz bv have zb: "bv \<noteq> Some (Fin 0)" by (auto simp: ran_def)
  from nz tv have zt: "tv \<noteq> Some (Fin 0)" by (auto simp: ran_def)
  have e: "extraer_importes_universal U texto =
       Inr (if truthy tv \<and> \<not> truthy bv
            then res(''base_imponible'' \<mapsto>
                   find (banda (the tv)) (candidatos U (re_findall (patron_importe U) (zona_resumen texto))))
            else res)"
    unfolding extraer_importes_universal_eq [OF loop]
    by (rule fallback_candidatos [OF tv bv zb])
  show ?thesis by (rule that [OF tv bv zb zt e])
qed

lemma extraer_importes_universal_total:
  "\<exists>r. extraer_importes_universal U texto = Inr r \<and> dom r = {''total'', ''base_imponible'', ''iva''}"
proof -
  obtain res where r: "buscar_patrones U (zona_resumen texto) (patrones_universal U) resultado_inicial = Inr res"
    "dom res = {''total'', ''base_imponible'', ''iva''}" "Some (Fin 0) \<notin> ran res"
    by (rule buscar_patrones_universal)
  have "''base_imponible'' \<in> dom res" unfolding r(2) by (rule insertI2) (rule insertI1)
  then have d: "dom (res(''base_imponible'' \<mapsto> x)) = dom res" for x
    by (simp only: dom_fun_upd option.simps if_False insert_absorb)
  obtain tv bv where
    "res ''total'' = Some tv" "res ''base_imponible'' = Some bv" "bv \<noteq> Some (Fin 0)" "tv \<noteq> Some (Fin 0)"
    and e: "extraer_importes_universal U texto =
       Inr (if truthy tv \<and> \<not> truthy bv
            then res(''base_imponible'' \<mapsto>
                   find (banda (the tv)) (candidatos U (re_findall (patron_importe U) (zona_resumen texto))))
            else res)" by (rule extraer_importes_universal_result [OF r(1)])
  define x where "x = find (banda (the tv)) (candidatos U (re_findall (patron_importe U) (zona_resumen texto)))"
  show ?thesis
  proof (cases "truthy tv \<and> \<not> truthy bv")
    case True
    with e have "extraer_importes_universal U texto = Inr (res(''base_imponible'' \<mapsto> x))"
      unfolding x_def by simp
    moreover have "dom (res(''base_imponible'' \<mapsto> x)) = {''total'', ''base_imponible'', ''iva''}"
      by (simp only: d r(2))
    ultimately show ?thesis by (intro exI conjI)
  next
    case False
    with e have "extraer_importes_universal U texto = Inr res" by simp
    with r(2) show ?thesis by (intro exI conjI)
  qed
qed


lemma re_search_from_bt:
  "re_search r s = Some g \<Longrightarrow> \<exists>s'. bt r (\<lambda>s' g. Some g) s' None = Some g"
  by (induction s) (auto split: option.splits)

text \<open>A pattern that ends in its group: a match has the group's text.\<close>

lemma bt_group_last:
  "bt (foldr Cat xs (Cat (Grp b) Eps)) (\<lambda>s' g. Some g) s g0 = Some g \<Longrightarrow>
     \<exists>s1 g1. bt b (\<lambda>s' g'. Some (Some (take (length s1 - length s') s1))) s1 g1 = Some g"
proof (induction xs arbitrary: s g0)
  case Nil
  then show ?case by auto
next
  case (Cons x xs)
  from Cons.prems have
    "bt x (\<lambda>s' g'. bt (foldr Cat xs (Cat (Grp b) Eps)) (\<lambda>s' g. Some g) s' g') s g0 = Some g" by simp
  from bt_from_cont [OF this] obtain s' g' where
    "bt (foldr Cat xs (Cat (Grp b) Eps)) (\<lambda>s' g. Some g) s' g' = Some g" by blast
  from Cons.IH [OF this] show ?case .
qed

lemma bt_group_last_Some:
  assumes "bt (foldr Cat xs (Cat (Grp b) Eps)) (\<lambda>s' g. Some g) s g0 = Some g"
  shows "\<exists>w. g = Some w"
proof -
  from bt_group_last [OF assms] obtain s1 g1 where
    "bt b (\<lambda>s' g'. Some (Some (take (length s1 - length s') s1))) s1 g1 = Some g" by blast
  from bt_from_cont [OF this] show ?thesis by auto
qed

lemma cat_snoc: "cat (xs @ [y]) = foldr Cat xs (Cat y Eps)"
  by (simp add: cat_def)

lemma patron_nif_group: "re_search (patron_nif U) s = Some g \<Longrightarrow> \<exists>w. g = Some w"
proof -
  assume "re_search (patron_nif U) s = Some g"
  from re_search_from_bt [OF this] obtain s' where
    s': "bt (patron_nif U) (\<lambda>s' g. Some g) s' None = Some g" by blast
  define A where "A = alts [liti U (py ''CIF''), liti U (py ''NIF''), cat [liti U (py ''IVA:''), sp U]]"
  define B where "B = cat [Atom (upper_range_i U), Rep True 8 (Some 8) (is_digit U),
                    Opt (Atom (upper_range_i U))]"
  define A where "A = alts [liti U (py ''CIF''), liti U (py ''NIF''), cat [liti U (py ''IVA:''), sp U]]"
  define B where "B = cat [Atom (upper_range_i U), Rep True 8 (Some 8) (is_digit U),
                    Opt (Atom (upper_range_i U))]"
  have "patron_nif U = foldr Cat [A] (Cat (Grp B) Eps)"
    by (simp add: patron_nif_def A_def B_def cat_def)
  with s' have "bt (foldr Cat [A] (Cat (Grp B) Eps)) (\<lambda>s' g. Some g) s' None = Some g" by simp
  from bt_group_last_Some [OF this] show ?thesis .
qed

lemma extraer_datos_total: "\<exists>d. extraer_datos_factura_completo U texto nombre = Inr d"
proof -
  obtain n where n: "(case numero_match U texto of
                Some g \<Rightarrow> normalizar_numero U g
              | None \<Rightarrow> Inr (py_replace (py ''.pdf'') [] nombre)) = Inr n"
    using normalizar_numero_Inr by (cases "numero_match U texto") auto
  obtain f where f: "(case re_search (patron_fecha U) texto of
                  Some g \<Rightarrow> normalizar_fecha U g
                | None \<Rightarrow> Inr []) = Inr f"
    using normalizar_fecha_Inr by (cases "re_search (patron_fecha U) texto") auto
  obtain m where m: "extraer_importes_universal U texto = Inr m"
    using extraer_importes_universal_total by blast
  obtain p where p: "(case re_search (patron_nif U) texto of
                      Some g \<Rightarrow> slice50 g
                    | None \<Rightarrow> Inr []) = Inr p"
    using patron_nif_group [of U texto]
    by (cases "re_search (patron_nif U) texto") (auto simp: slice50_def)
  show ?thesis
    unfolding extraer_datos_factura_completo_def n f m p by (simp add: py_bind_def)
qed

text \<open>
  Claim C7. For every text, \<open>extraer_importes_universal\<close> returns (no exception) a
  dictionary with exactly the keys \<open>total\<close>, \<open>base_imponible\<close> and \<open>iva\<close>, each bound to a
  float or to \<^verbatim>\<open>None\<close>; for every text and file name \<open>extraer_datos_factura_completo\<close>
  returns a record: a pattern that does not match and an amount that does not parse
  leave a field empty, they raise nothing.
\<close>

theorem extractors_never_raise:
  "(\<exists>r. extraer_importes_universal U texto = Inr r \<and> dom r = {''total'', ''base_imponible'', ''iva''}) \<and>
   (\<exists>d. extraer_datos_factura_completo U texto nombre = Inr d)"
  by (intro conjI) (rule extraer_importes_universal_total, rule extraer_datos_total)

text \<open>
  Claim C2. When the loop over the label patterns ends with a total \<open>t\<close> and without a
  base amount, the base amount becomes the first candidate \<open>v\<close> of the trailing window, in
  the order the tokens appear, with \<^verbatim>\<open>0.7 * t <= v <= 0.95 * t\<close>, and stays \<^verbatim>\<open>None\<close> when
  there is none (\<open>find\<close> is then \<open>None\<close>). The fallback never changes \<open>iva\<close> (nor \<open>total\<close>).
  The witness below runs the two texts of the claim: \<^verbatim>\<open>Total: 100,00\<close> with a bare
  \<^verbatim>\<open>85,00\<close> gives the base amount 85.0, with a bare \<^verbatim>\<open>50,00\<close> it gives none.
\<close>

theorem fallback_first_in_band:
  assumes "buscar_patrones U (zona_resumen texto) (patrones_universal U) resultado_inicial = Inr res"
  shows "(res ''total'' = Some (Some t) \<and> res ''base_imponible'' = Some None \<longrightarrow>
            extraer_importes_universal U texto =
              Inr (res(''base_imponible'' \<mapsto>
                     find (banda t) (candidatos U (re_findall (patron_importe U) (zona_resumen texto)))))) \<and>
         (\<exists>r. extraer_importes_universal U texto = Inr r \<and>
               r ''iva'' = res ''iva'' \<and> r ''total'' = res ''total'')"
proof -
  define x where "x = candidatos U (re_findall (patron_importe U) (zona_resumen texto))"
  obtain tv bv where
    tv: "res ''total'' = Some tv" and bv: "res ''base_imponible'' = Some bv" and
    zb: "bv \<noteq> Some (Fin 0)" and zt: "tv \<noteq> Some (Fin 0)" and
    e: "extraer_importes_universal U texto =
       Inr (if truthy tv \<and> \<not> truthy bv
            then res(''base_imponible'' \<mapsto>
                   find (banda (the tv)) (candidatos U (re_findall (patron_importe U) (zona_resumen texto))))
            else res)" by (rule extraer_importes_universal_result [OF assms])
  have 1: "res ''total'' = Some (Some t) \<and> res ''base_imponible'' = Some None \<longrightarrow>
            extraer_importes_universal U texto = Inr (res(''base_imponible'' \<mapsto> find (banda t) x))"
  proof
    assume a: "res ''total'' = Some (Some t) \<and> res ''base_imponible'' = Some None"
    with tv bv have "tv = Some t" "bv = None" by simp_all
    with zt have "truthy tv \<and> \<not> truthy bv" by (simp add: truthy_iff)
    with e \<open>tv = Some t\<close> show "extraer_importes_universal U texto = Inr (res(''base_imponible'' \<mapsto> find (banda t) x))"
      unfolding x_def by simp
  qed
  have 2: "\<exists>r. extraer_importes_universal U texto = Inr r \<and>
               r ''iva'' = res ''iva'' \<and> r ''total'' = res ''total''"
  proof (cases "truthy tv \<and> \<not> truthy bv")
    case True
    with e have "extraer_importes_universal U texto = Inr (res(''base_imponible'' \<mapsto> find (banda (the tv)) x))"
      unfolding x_def by simp
    moreover have "(res(''base_imponible'' \<mapsto> find (banda (the tv)) x)) ''iva'' = res ''iva''" by simp
    moreover have "(res(''base_imponible'' \<mapsto> find (banda (the tv)) x)) ''total'' = res ''total''" by simp
    ultimately show ?thesis by (intro exI conjI)
  next
    case False
    with e have "extraer_importes_universal U texto = Inr res" by simp
    then show ?thesis by (intro exI [of _ res] conjI) simp_all
  qed
  from 1 2 show ?thesis unfolding x_def by (rule conjI)
qed

text \<open>
  Claim C3. The label patterns are applied in the order of the list, and a field that
  an earlier pattern has set to an amount keeps it: whatever the later patterns of the
  list and the fallback find, the result holds the same amount there. The witness below
  runs the text of the claim, \<^verbatim>\<open>Total: 100,00\<close> before \<^verbatim>\<open>TOTAL: 200,00\<close>: the first pattern
  sets the total to 100.0 and the result holds 100.0.
\<close>

theorem first_pattern_wins:
  assumes "patrones_universal U = ps1 @ ps2"
      and "buscar_patrones U (zona_resumen texto) ps1 resultado_inicial = Inr r1"
      and "r1 campo = Some (Some v)"
  shows "\<exists>r. extraer_importes_universal U texto = Inr r \<and> r campo = Some (Some v)"
proof -
  define x where "x = candidatos U (re_findall (patron_importe U) (zona_resumen texto))"
  obtain res where res: "buscar_patrones U (zona_resumen texto) (patrones_universal U) resultado_inicial = Inr res"
    "dom res = {''total'', ''base_imponible'', ''iva''}" "Some (Fin 0) \<notin> ran res"
    by (rule buscar_patrones_universal)
  from res(1) assms(1,2) have 2: "buscar_patrones U (zona_resumen texto) ps2 r1 = Inr res"
    by (simp add: buscar_patrones_append)
  have "Some (Fin 0) \<notin> ran r1"
    by (rule buscar_patrones_no_zero [OF assms(2) resultado_inicial_no_zero])
  with assms(3) have tr: "truthy (Some v)" by (auto simp: truthy_iff ran_def)
  have k: "res campo = Some (Some v)"
    by (rule buscar_patrones_keeps [where res = r1 and k = campo, OF 2 assms(3) tr])
  obtain tv bv where
    tv: "res ''total'' = Some tv" and bv: "res ''base_imponible'' = Some bv" and
    zb: "bv \<noteq> Some (Fin 0)" and zt: "tv \<noteq> Some (Fin 0)" and
    e: "extraer_importes_universal U texto =
       Inr (if truthy tv \<and> \<not> truthy bv
            then res(''base_imponible'' \<mapsto>
                   find (banda (the tv)) (candidatos U (re_findall (patron_importe U) (zona_resumen texto))))
            else res)" by (rule extraer_importes_universal_result [OF res(1)])
  show ?thesis
  proof (cases "truthy tv \<and> \<not> truthy bv")
    case False
    with e have "extraer_importes_universal U texto = Inr res" by simp
    with k show ?thesis by (intro exI conjI)
  next
    case True
    with bv k tr have ne: "campo \<noteq> ''base_imponible''" by auto
    from True e have "extraer_importes_universal U texto = Inr (res(''base_imponible'' \<mapsto> find (banda (the tv)) x))"
      unfolding x_def by simp
    moreover from ne k have "(res(''base_imponible'' \<mapsto> find (banda (the tv)) x)) campo = Some (Some v)"
      by simp
    ultimately show ?thesis by (intro exI conjI)
  qed
qed

text \<open>
  Claim C10. An amount that normalizes to \<open>0.0\<close> counts as absent: a pattern whose group
  normalizes to \<open>0.0\<close> leaves the dictionary as it was (so a later pattern can still set
  the field); the pool of the fallback holds no \<open>0.0\<close>; a total of \<open>0.0\<close> does not start
  the fallback; and no field of the result is \<open>0.0\<close>.
\<close>

theorem zero_amount_is_absent:
  "(re_search (fst pc) zona = Some g \<and> normalizar_importe U g = Inr (Some (Fin 0)) \<and>
      res (snd pc) = Some actual \<longrightarrow> aplicar_patron U zona pc res = Inr res) \<and>
   importes_normalizados U toks = Inr (map Some (candidatos U toks)) \<and>
   Fin 0 \<notin> set (candidatos U toks) \<and>
   (res ''total'' = Some (Some (Fin 0)) \<longrightarrow> fallback_base res pool = Inr res) \<and>
   (extraer_importes_universal U texto = Inr r \<longrightarrow> Some (Fin 0) \<notin> ran r)"
proof -
  have a: "re_search (fst pc) zona = Some g \<and> normalizar_importe U g = Inr (Some (Fin 0)) \<and>
      res (snd pc) = Some actual \<longrightarrow> aplicar_patron U zona pc res = Inr res"
    by (auto simp: aplicar_patron_def py_bind_def py_getitem_def truthy_iff)
  have c: "res ''total'' = Some (Some (Fin 0)) \<longrightarrow> fallback_base res pool = Inr res"
    by (auto simp: fallback_base_def py_bind_def py_getitem_def truthy_iff)
  have d: "extraer_importes_universal U texto = Inr r \<longrightarrow> Some (Fin 0) \<notin> ran r"
  proof
    assume e: "extraer_importes_universal U texto = Inr r"
    define x where "x = candidatos U (re_findall (patron_importe U) (zona_resumen texto))"
    obtain res where res: "buscar_patrones U (zona_resumen texto) (patrones_universal U) resultado_inicial = Inr res"
      "dom res = {''total'', ''base_imponible'', ''iva''}" "Some (Fin 0) \<notin> ran res"
      by (rule buscar_patrones_universal)
    obtain tv bv where
      "res ''total'' = Some tv" "res ''base_imponible'' = Some bv" "bv \<noteq> Some (Fin 0)" "tv \<noteq> Some (Fin 0)" and
      r: "extraer_importes_universal U texto =
       Inr (if truthy tv \<and> \<not> truthy bv
            then res(''base_imponible'' \<mapsto>
                   find (banda (the tv)) (candidatos U (re_findall (patron_importe U) (zona_resumen texto))))
            else res)" by (rule extraer_importes_universal_result [OF res(1)])
    have nz: "find (banda (the tv)) x \<noteq> Some (Fin 0)"
      using candidatos_no_zero [of U "re_findall (patron_importe U) (zona_resumen texto)"]
      unfolding x_def by (auto simp: find_Some_iff)
    from r e have "r = (if truthy tv \<and> \<not> truthy bv then res(''base_imponible'' \<mapsto> find (banda (the tv)) x) else res)"
      unfolding x_def by simp
    with nz res(3) show "Some (Fin 0) \<notin> ran r"
      by (auto simp: ran_def split: if_splits)
  qed
  from a c d importes_normalizados_candidatos [of U toks] candidatos_no_zero [of U toks]
  show ?thesis by (intro conjI)
qed

section \<open>Running the model\<close>

lemma bitlen_numeral: "bitlen (numeral k) = bitlen (numeral k div 2) + 1"
  using compute_bitlen [of "numeral k"] by simp

lemma bitlen_one: "bitlen 1 = 1"
  using compute_bitlen [of 1] by simp

lemma floor_rat_numeral: "\<lfloor>(numeral a / numeral b :: rat)\<rfloor> = numeral a div numeral b"
  using floor_divide_of_int_eq [of "numeral a" "numeral b", where ?'a = rat] by simp

lemma floor_rat_one_numeral: "\<lfloor>(1 / numeral b :: rat)\<rfloor> = 1 div numeral b"
  using floor_divide_of_int_eq [of 1 "numeral b", where ?'a = rat] by simp

lemma ceiling_rat_numeral: "\<lceil>(numeral a / numeral b :: rat)\<rceil> = - ((- numeral a) div numeral b)"
  using floor_divide_of_int_eq [of "- numeral a" "numeral b", where ?'a = rat] by (simp add: ceiling_def)

lemma ceiling_rat_one_numeral: "\<lceil>(1 / numeral b :: rat)\<rceil> = - ((- 1) div numeral b)"
  using floor_divide_of_int_eq [of "- 1" "numeral b", where ?'a = rat] by (simp add: ceiling_def)

lemmas float_eval = round_double_def ilog2_def pow2_def round_half_even_def Let_def
  bitlen_numeral bitlen_one floor_rat_numeral ceiling_rat_numeral floor_rat_one_numeral
  ceiling_rat_one_numeral

lemmas cls = is_space_def is_digit_def todecimal_def is_alnum_def is_word_def to_lower_def
  lit_i_def case_fixes_def ascii_cased_def upper_range_i_def one_of_def num_char_def

lemmas pats = sp_def sep_def num_group_def lazy_any_def colon_dash_def word_group_def cat_def
  alts_def lit_def liti_def chr_def

lemmas norm_eval = normalizar_importe_def limpiar_importe_def py_strip_def re_sub_class_def
  py_replace_def py_float_def digits_val_def digit_of_def py_try_def py_bind_def

lemma round_double_literals:
  "round_double 100 = Fin 100" "round_double 85 = Fin 85" "round_double 50 = Fin 50"
  "round_double 200 = Fin 200" "round_double 5 = Fin 5" "round_double 80 = Fin 80"
  by (simp_all add: float_eval)

lemma banda_100:
  "\<not> banda (Fin 100) (Fin 100)" "banda (Fin 100) (Fin 85)" "\<not> banda (Fin 100) (Fin 50)"
  by (simp_all add: banda_def float_eval)

lemma normalizar_ejemplos:
  "normalizar_importe U (Some (py ''100,00'')) = Inr (Some (Fin 100))"
  "normalizar_importe U (Some (py ''85,00'')) = Inr (Some (Fin 85))"
  "normalizar_importe U (Some (py ''50,00'')) = Inr (Some (Fin 50))"
  "normalizar_importe U (Some (py ''200,00'')) = Inr (Some (Fin 200))"
  "normalizar_importe U (Some (py ''0,00'')) = Inr (Some (Fin 0))"
  "normalizar_importe U (Some (py ''5'')) = Inr (Some (Fin 5))"
  by (simp_all add: norm_eval cls py_def round_double_literals) (simp_all add: round_double_def)

lemma texto_85_chars:
  "texto_85 = [84, 111, 116, 97, 108, 58, 32, 49, 48, 48, 44, 48, 48, 10, 56, 53, 44, 48, 48]"
  by (simp add: texto_85_def py_def)

lemma zona_texto_85: "zona_resumen texto_85 = texto_85"
  by (rule zona_resumen_short) (simp add: texto_85_chars)

lemma buscar_texto_85:
  "re_search (patron_total_1 U) texto_85 = Some (Some (py ''100,00''))"
  "re_search (patron_total_2 U) texto_85 = Some (Some (py ''100,00''))"
  "re_search (patron_base_1 U) texto_85 = None"
  "re_search (patron_base_2 U) texto_85 = None"
  "re_search (patron_iva_1 U) texto_85 = None"
  "re_search (patron_iva_2 U) texto_85 = None"
  "re_search (patron_iva_3 U) texto_85 = None"
  by (simp_all add: texto_85_chars patron_total_1_def patron_total_2_def patron_base_1_def
        patron_base_2_def patron_iva_1_def patron_iva_2_def patron_iva_3_def pats cls py_def)

lemma tokens_texto_85:
  "re_findall (patron_importe U) texto_85 = [py ''100,00'', py ''85,00'']"
  by (simp add: texto_85_chars re_findall_def patron_importe_def pats cls py_def)

lemma loop_texto_85:
  "buscar_patrones U texto_85 (patrones_universal U) resultado_inicial =
     Inr (resultado_inicial(''total'' \<mapsto> Some (Fin 100)))"
  by (simp add: patrones_universal_def aplicar_patron_def buscar_texto_85 normalizar_ejemplos
        py_getitem_def py_bind_def resultado_inicial_def truthy_def float_truthy_def)

lemma candidatos_texto_85:
  "candidatos U [py ''100,00'', py ''85,00''] = [Fin 100, Fin 85]"
  by (simp add: candidatos_def candidato_def map_filter_simps normalizar_ejemplos)

lemma texto_50_chars:
  "texto_50 = [84, 111, 116, 97, 108, 58, 32, 49, 48, 48, 44, 48, 48, 10, 53, 48, 44, 48, 48]"
  by (simp add: texto_50_def py_def)

lemma zona_texto_50: "zona_resumen texto_50 = texto_50"
  by (rule zona_resumen_short) (simp add: texto_50_chars)

lemma buscar_texto_50:
  "re_search (patron_total_1 U) texto_50 = Some (Some (py ''100,00''))"
  "re_search (patron_total_2 U) texto_50 = Some (Some (py ''100,00''))"
  "re_search (patron_base_1 U) texto_50 = None"
  "re_search (patron_base_2 U) texto_50 = None"
  "re_search (patron_iva_1 U) texto_50 = None"
  "re_search (patron_iva_2 U) texto_50 = None"
  "re_search (patron_iva_3 U) texto_50 = None"
  by (simp_all add: texto_50_chars patron_total_1_def patron_total_2_def patron_base_1_def
        patron_base_2_def patron_iva_1_def patron_iva_2_def patron_iva_3_def pats cls py_def)

lemma tokens_texto_50:
  "re_findall (patron_importe U) texto_50 = [py ''100,00'', py ''50,00'']"
  by (simp add: texto_50_chars re_findall_def patron_importe_def pats cls py_def)

lemma texto_prioridad_chars:
  "texto_prioridad = [84, 111, 116, 97, 108, 58, 32, 49, 48, 48, 44, 48, 48, 10, 84, 79, 84, 65, 76, 58, 32, 50, 48, 48, 44, 48, 48]"
  by (simp add: texto_prioridad_def py_def)

lemma zona_texto_prioridad: "zona_resumen texto_prioridad = texto_prioridad"
  by (rule zona_resumen_short) (simp add: texto_prioridad_chars)

lemma buscar_texto_prioridad:
  "re_search (patron_total_1 U) texto_prioridad = Some (Some (py ''100,00''))"
  "re_search (patron_total_2 U) texto_prioridad = Some (Some (py ''100,00''))"
  "re_search (patron_base_1 U) texto_prioridad = None"
  "re_search (patron_base_2 U) texto_prioridad = None"
  "re_search (patron_iva_1 U) texto_prioridad = None"
  "re_search (patron_iva_2 U) texto_prioridad = None"
  "re_search (patron_iva_3 U) texto_prioridad = None"
  by (simp_all add: texto_prioridad_chars patron_total_1_def patron_total_2_def patron_base_1_def
        patron_base_2_def patron_iva_1_def patron_iva_2_def patron_iva_3_def pats cls py_def)

lemma tokens_texto_prioridad:
  "re_findall (patron_importe U) texto_prioridad = [py ''100,00'', py ''200,00'']"
  by (simp add: texto_prioridad_chars re_findall_def patron_importe_def pats cls py_def)

lemma texto_cero_chars:
  "texto_cero = [84, 111, 116, 97, 108, 32, 102, 97, 99, 116, 117, 114, 97, 32, 48, 44, 48, 48, 32, 116, 111, 116, 97, 108, 32, 53]"
  by (simp add: texto_cero_def py_def)

lemma zona_texto_cero: "zona_resumen texto_cero = texto_cero"
  by (rule zona_resumen_short) (simp add: texto_cero_chars)

lemma buscar_texto_cero:
  "re_search (patron_total_1 U) texto_cero = Some (Some (py ''0,00''))"
  "re_search (patron_total_2 U) texto_cero = Some (Some (py ''5''))"
  "re_search (patron_base_1 U) texto_cero = None"
  "re_search (patron_base_2 U) texto_cero = None"
  "re_search (patron_iva_1 U) texto_cero = None"
  "re_search (patron_iva_2 U) texto_cero = None"
  "re_search (patron_iva_3 U) texto_cero = None"
  by (simp_all add: texto_cero_chars patron_total_1_def patron_total_2_def patron_base_1_def
        patron_base_2_def patron_iva_1_def patron_iva_2_def patron_iva_3_def pats cls py_def)

lemma tokens_texto_cero:
  "re_findall (patron_importe U) texto_cero = [py ''0,00'']"
  by (simp add: texto_cero_chars re_findall_def patron_importe_def pats cls py_def)


lemmas loop_eval = patrones_universal_def aplicar_patron_def normalizar_ejemplos
  py_getitem_def py_bind_def resultado_inicial_def truthy_def float_truthy_def

lemma loop_texto_50:
  "buscar_patrones U texto_50 (patrones_universal U) resultado_inicial =
     Inr (resultado_inicial(''total'' \<mapsto> Some (Fin 100)))"
  by (simp add: loop_eval buscar_texto_50)

lemma loop_texto_prioridad:
  "buscar_patrones U texto_prioridad (patrones_universal U) resultado_inicial =
     Inr (resultado_inicial(''total'' \<mapsto> Some (Fin 100)))"
  by (simp add: loop_eval buscar_texto_prioridad)

lemma loop_texto_cero:
  "buscar_patrones U texto_cero (patrones_universal U) resultado_inicial =
     Inr (resultado_inicial(''total'' \<mapsto> Some (Fin 5)))"
  by (simp add: loop_eval buscar_texto_cero)

lemma candidatos_ejemplos:
  "candidatos U [py ''100,00'', py ''85,00''] = [Fin 100, Fin 85]"
  "candidatos U [py ''100,00'', py ''50,00''] = [Fin 100, Fin 50]"
  "candidatos U [py ''100,00'', py ''200,00''] = [Fin 100, Fin 200]"
  "candidatos U [py ''0,00''] = []"
  by (simp_all add: candidatos_def candidato_def map_filter_simps normalizar_ejemplos)

theorem fallback_first_in_band_witness:
  "\<forall>U. buscar_patrones U (zona_resumen texto_85) (patrones_universal U) resultado_inicial =
          Inr (resultado_inicial(''total'' \<mapsto> Some (Fin 100))) \<and>
        extraer_importes_universal U texto_85 =
          Inr (resultado_inicial(''total'' \<mapsto> Some (Fin 100), ''base_imponible'' \<mapsto> Some (Fin 85))) \<and>
        buscar_patrones U (zona_resumen texto_50) (patrones_universal U) resultado_inicial =
          Inr (resultado_inicial(''total'' \<mapsto> Some (Fin 100))) \<and>
        extraer_importes_universal U texto_50 =
          Inr (resultado_inicial(''total'' \<mapsto> Some (Fin 100), ''base_imponible'' \<mapsto> None))"
proof (intro allI conjI)
  fix U
  show a: "buscar_patrones U (zona_resumen texto_85) (patrones_universal U) resultado_inicial =
          Inr (resultado_inicial(''total'' \<mapsto> Some (Fin 100)))"
    by (simp only: zona_texto_85 loop_texto_85)
  show b: "buscar_patrones U (zona_resumen texto_50) (patrones_universal U) resultado_inicial =
          Inr (resultado_inicial(''total'' \<mapsto> Some (Fin 100)))"
    by (simp only: zona_texto_50 loop_texto_50)
  have k: "(resultado_inicial(''total'' \<mapsto> Some (Fin 100))) ''total'' = Some (Some (Fin 100)) \<and>
           (resultado_inicial(''total'' \<mapsto> Some (Fin 100))) ''base_imponible'' = Some None"
    by (simp add: resultado_inicial_def)
  from fallback_first_in_band [where U = U and texto = texto_85 and t = "Fin 100", OF a] k
  show "extraer_importes_universal U texto_85 =
          Inr (resultado_inicial(''total'' \<mapsto> Some (Fin 100), ''base_imponible'' \<mapsto> Some (Fin 85)))"
    by (simp add: zona_texto_85 tokens_texto_85 candidatos_ejemplos banda_100)
  from fallback_first_in_band [where U = U and texto = texto_50 and t = "Fin 100", OF b] k
  show "extraer_importes_universal U texto_50 =
          Inr (resultado_inicial(''total'' \<mapsto> Some (Fin 100), ''base_imponible'' \<mapsto> None))"
    by (simp add: zona_texto_50 tokens_texto_50 candidatos_ejemplos banda_100)
qed

theorem first_pattern_wins_witness:
  "\<forall>U. patrones_universal U = [(patron_total_1 U, ''total'')] @ tl (patrones_universal U) \<and>
        buscar_patrones U (zona_resumen texto_prioridad) [(patron_total_1 U, ''total'')] resultado_inicial =
          Inr (resultado_inicial(''total'' \<mapsto> Some (Fin 100))) \<and>
        re_search (patron_total_2 U) texto_prioridad = Some (Some (py ''100,00'')) \<and>
        (\<exists>r. extraer_importes_universal U texto_prioridad = Inr r \<and> r ''total'' = Some (Some (Fin 100)))"
proof (intro allI conjI)
  fix U
  show a: "patrones_universal U = [(patron_total_1 U, ''total'')] @ tl (patrones_universal U)"
    by (simp add: patrones_universal_def)
  show b: "buscar_patrones U (zona_resumen texto_prioridad) [(patron_total_1 U, ''total'')] resultado_inicial =
          Inr (resultado_inicial(''total'' \<mapsto> Some (Fin 100)))"
    by (simp add: zona_texto_prioridad loop_eval buscar_texto_prioridad)
  show "re_search (patron_total_2 U) texto_prioridad = Some (Some (py ''100,00''))"
    by (rule buscar_texto_prioridad)
  have c: "(resultado_inicial(''total'' \<mapsto> Some (Fin 100))) ''total'' = Some (Some (Fin 100))"
    by simp
  show "\<exists>r. extraer_importes_universal U texto_prioridad = Inr r \<and> r ''total'' = Some (Some (Fin 100))"
    by (rule first_pattern_wins [where campo = "''total''", OF a b c])
qed

theorem zero_amount_is_absent_witness:
  "\<forall>U. re_search (patron_total_1 U) texto_cero = Some (Some (py ''0,00'')) \<and>
        normalizar_importe U (Some (py ''0,00'')) = Inr (Some (Fin 0)) \<and>
        aplicar_patron U texto_cero (patron_total_1 U, ''total'') resultado_inicial = Inr resultado_inicial \<and>
        fallback_base (resultado_inicial(''total'' \<mapsto> Some (Fin 0))) [Some (Fin 1)] =
          Inr (resultado_inicial(''total'' \<mapsto> Some (Fin 0))) \<and>
        extraer_importes_universal U texto_cero =
          Inr (resultado_inicial(''total'' \<mapsto> Some (Fin 5), ''base_imponible'' \<mapsto> None)) \<and>
        Some (Fin 0) \<notin> ran (resultado_inicial(''total'' \<mapsto> Some (Fin 5), ''base_imponible'' \<mapsto> None))"
proof (intro allI conjI)
  fix U
  show s: "re_search (patron_total_1 U) texto_cero = Some (Some (py ''0,00''))"
    by (rule buscar_texto_cero)
  show n: "normalizar_importe U (Some (py ''0,00'')) = Inr (Some (Fin 0))"
    by (rule normalizar_ejemplos)
  have i: "resultado_inicial ''total'' = Some None" by (simp add: resultado_inicial_def)
  from zero_amount_is_absent [where pc = "(patron_total_1 U, ''total'')" and zona = texto_cero
      and U = U and g = "Some (py ''0,00'')" and res = resultado_inicial and actual = None] s n i
  show "aplicar_patron U texto_cero (patron_total_1 U, ''total'') resultado_inicial = Inr resultado_inicial"
    by simp
  from zero_amount_is_absent [where res = "resultado_inicial(''total'' \<mapsto> Some (Fin 0))" and pool = "[Some (Fin 1)]"]
  show "fallback_base (resultado_inicial(''total'' \<mapsto> Some (Fin 0))) [Some (Fin 1)] =
          Inr (resultado_inicial(''total'' \<mapsto> Some (Fin 0)))"
    by simp
  show e: "extraer_importes_universal U texto_cero =
          Inr (resultado_inicial(''total'' \<mapsto> Some (Fin 5), ''base_imponible'' \<mapsto> None))"
  proof -
    have l: "buscar_patrones U (zona_resumen texto_cero) (patrones_universal U) resultado_inicial =
               Inr (resultado_inicial(''total'' \<mapsto> Some (Fin 5)))"
      by (simp only: zona_texto_cero loop_texto_cero)
    show ?thesis
      unfolding extraer_importes_universal_eq [OF l]
      by (simp add: zona_texto_cero tokens_texto_cero candidatos_ejemplos fallback_base_def
            py_getitem_def py_bind_def truthy_def float_truthy_def resultado_inicial_def fun_eq_iff)
  qed
  from zero_amount_is_absent [where U = U and texto = texto_cero
      and r = "resultado_inicial(''total'' \<mapsto> Some (Fin 5), ''base_imponible'' \<mapsto> None)"] e
  show "Some (Fin 0) \<notin> ran (resultado_inicial(''total'' \<mapsto> Some (Fin 5), ''base_imponible'' \<mapsto> None))"
    by simp
qed

lemma texto_factura_chars:
  "texto_factura = [70, 97, 99, 116, 117, 114, 97, 58, 32, 65, 49, 50, 51, 10, 70, 101, 99, 104, 97, 32, 100, 101, 32, 102, 97, 99, 116, 117, 114, 97, 58, 32, 48, 49, 47, 48, 50, 47, 50, 48, 50, 52, 10, 66, 97, 115, 101, 32, 105, 109, 112, 111, 110, 105, 98, 108, 101, 58, 32, 56, 48, 44, 48, 48, 10, 73, 86, 65, 58, 32, 49, 54, 44, 56, 48, 10, 84, 111, 116, 97, 108, 58, 32, 57, 54, 44, 56, 48, 10, 67, 73, 70, 58, 32, 66, 49, 50, 51, 52, 53, 54, 55, 56]"
  by (simp add: texto_factura_def py_def)

lemma zona_texto_factura: "zona_resumen texto_factura = texto_factura"
  by (rule zona_resumen_short) (simp add: texto_factura_chars)

lemma buscar_texto_factura:
  "re_search (patron_total_1 U) texto_factura = Some (Some (py ''96,80''))"
  "re_search (patron_total_2 U) texto_factura = Some (Some (py ''96,80''))"
  "re_search (patron_base_1 U) texto_factura = Some (Some (py ''80,00''))"
  "re_search (patron_base_2 U) texto_factura = None"
  "re_search (patron_iva_1 U) texto_factura = Some (Some (py ''16,80''))"
  "re_search (patron_iva_2 U) texto_factura = None"
  "re_search (patron_iva_3 U) texto_factura = None"
  by (simp_all add: texto_factura_chars patron_total_1_def patron_total_2_def patron_base_1_def
        patron_base_2_def patron_iva_1_def patron_iva_2_def patron_iva_3_def pats cls py_def)

lemma tokens_texto_factura:
  "re_findall (patron_importe U) texto_factura = [py ''123'', py ''2024'', py ''80,00'', py ''16,80'', py ''96,80'', py ''12345678'']"
  by (simp add: texto_factura_chars re_findall_def patron_importe_def pats cls py_def)

lemma campos_texto_factura:
  "re_search (patron_numero_1 U) texto_factura = None"
  "re_search (patron_numero_2 U) texto_factura = None"
  "re_search (patron_numero_3 U) texto_factura = Some (Some (py ''A123''))"
  "re_search (patron_fecha U) texto_factura = Some (Some (py ''01/02/2024''))"
  "re_search (patron_nif U) texto_factura = None"
  by (simp_all add: texto_factura_chars patron_numero_1_def patron_numero_2_def patron_numero_3_def
        patron_fecha_def patron_nif_def pats cls py_def)

lemma texto_sin_etiquetas_chars:
  "texto_sin_etiquetas = [104, 111, 108, 97]"
  by (simp add: texto_sin_etiquetas_def py_def)

lemma zona_texto_sin_etiquetas: "zona_resumen texto_sin_etiquetas = texto_sin_etiquetas"
  by (rule zona_resumen_short) (simp add: texto_sin_etiquetas_chars)

lemma buscar_texto_sin_etiquetas:
  "re_search (patron_total_1 U) texto_sin_etiquetas = None"
  "re_search (patron_total_2 U) texto_sin_etiquetas = None"
  "re_search (patron_base_1 U) texto_sin_etiquetas = None"
  "re_search (patron_base_2 U) texto_sin_etiquetas = None"
  "re_search (patron_iva_1 U) texto_sin_etiquetas = None"
  "re_search (patron_iva_2 U) texto_sin_etiquetas = None"
  "re_search (patron_iva_3 U) texto_sin_etiquetas = None"
  by (simp_all add: texto_sin_etiquetas_chars patron_total_1_def patron_total_2_def patron_base_1_def
        patron_base_2_def patron_iva_1_def patron_iva_2_def patron_iva_3_def pats cls py_def)

lemma tokens_texto_sin_etiquetas:
  "re_findall (patron_importe U) texto_sin_etiquetas = []"
  by (simp add: texto_sin_etiquetas_chars re_findall_def patron_importe_def pats cls py_def)

lemma campos_texto_sin_etiquetas:
  "re_search (patron_numero_1 U) texto_sin_etiquetas = None"
  "re_search (patron_numero_2 U) texto_sin_etiquetas = None"
  "re_search (patron_numero_3 U) texto_sin_etiquetas = None"
  "re_search (patron_fecha U) texto_sin_etiquetas = None"
  "re_search (patron_nif U) texto_sin_etiquetas = None"
  by (simp_all add: texto_sin_etiquetas_chars patron_numero_1_def patron_numero_2_def patron_numero_3_def
        patron_fecha_def patron_nif_def pats cls py_def)

lemma round_double_factura:
  "round_double (84 / 5) = Fin (4728779608739021 / 281474976710656)"
  "round_double (484 / 5) = Fin (6811694436397875 / 70368744177664)"
  by (simp_all add: float_eval)

lemma normalizar_factura:
  "normalizar_importe U (Some (py ''96,80'')) = Inr (Some (round_double (484 / 5)))"
  "normalizar_importe U (Some (py ''80,00'')) = Inr (Some (round_double 80))"
  "normalizar_importe U (Some (py ''16,80'')) = Inr (Some (round_double (84 / 5)))"
  by (simp_all add: norm_eval cls py_def)

lemma loop_texto_factura:
  "buscar_patrones U texto_factura (patrones_universal U) resultado_inicial =
     Inr (resultado_inicial(''total'' \<mapsto> Some (round_double (484 / 5)),
                            ''base_imponible'' \<mapsto> Some (round_double 80),
                            ''iva'' \<mapsto> Some (round_double (84 / 5))))"
  by (simp add: patrones_universal_def aplicar_patron_def buscar_texto_factura normalizar_factura
        round_double_factura round_double_literals
        py_getitem_def py_bind_def resultado_inicial_def truthy_def float_truthy_def)

lemma importes_texto_factura:
  "extraer_importes_universal U texto_factura =
     Inr (resultado_inicial(''total'' \<mapsto> Some (round_double (484 / 5)),
                            ''base_imponible'' \<mapsto> Some (round_double 80),
                            ''iva'' \<mapsto> Some (round_double (84 / 5))))"
proof -
  have l: "buscar_patrones U (zona_resumen texto_factura) (patrones_universal U) resultado_inicial =
     Inr (resultado_inicial(''total'' \<mapsto> Some (round_double (484 / 5)),
                            ''base_imponible'' \<mapsto> Some (round_double 80),
                            ''iva'' \<mapsto> Some (round_double (84 / 5))))"
    by (simp only: zona_texto_factura loop_texto_factura)
  show ?thesis
    unfolding extraer_importes_universal_eq [OF l]
    by (simp add: fallback_base_def py_getitem_def py_bind_def truthy_def float_truthy_def
          round_double_factura round_double_literals)
qed

lemma datos_texto_factura:
  "extraer_datos_factura_completo U texto_factura nombre =
     Inr \<lparr>numero_factura = py ''A123'', fecha_factura = py ''01/02/2024'', proveedor = [],
          cliente = [], base_imponible = Some (round_double 80),
          iva = Some (round_double (84 / 5)), total = Some (round_double (484 / 5)),
          nombre_fichero = nombre\<rparr>"
  by (simp add: extraer_datos_factura_completo_def numero_match_def campos_texto_factura
        importes_texto_factura normalizar_numero_def normalizar_fecha_def py_strip_def
        re_sub_class_def py_bind_def datos_update_def resultado_inicial_def cls py_def)

lemma loop_texto_sin_etiquetas:
  "buscar_patrones U texto_sin_etiquetas (patrones_universal U) resultado_inicial = Inr resultado_inicial"
  by (simp add: patrones_universal_def aplicar_patron_def buscar_texto_sin_etiquetas)

lemma importes_texto_sin_etiquetas:
  "extraer_importes_universal U texto_sin_etiquetas = Inr resultado_inicial"
proof -
  have l: "buscar_patrones U (zona_resumen texto_sin_etiquetas) (patrones_universal U) resultado_inicial =
     Inr resultado_inicial"
    by (simp only: zona_texto_sin_etiquetas loop_texto_sin_etiquetas)
  show ?thesis
    unfolding extraer_importes_universal_eq [OF l]
    by (simp add: fallback_base_def py_getitem_def py_bind_def truthy_def resultado_inicial_def)
qed

lemma datos_texto_sin_etiquetas:
  "extraer_datos_factura_completo U texto_sin_etiquetas nombre =
     Inr \<lparr>numero_factura = py_replace (py ''.pdf'') [] nombre, fecha_factura = [], proveedor = [],
          cliente = [], base_imponible = None, iva = None, total = None,
          nombre_fichero = nombre\<rparr>"
  by (simp add: extraer_datos_factura_completo_def numero_match_def campos_texto_sin_etiquetas
        importes_texto_sin_etiquetas py_bind_def datos_update_def resultado_inicial_def)

lemma replace_ejemplos:
  "py_replace (py ''.pdf'') [] (py ''.pdf'') = []"
  "py_replace (py ''.pdf'') [] (py ''INV-2024-07.pdf'') = py ''INV-2024-07''"
  "py_replace (py ''.pdf'') [] (py ''a.pdf.pdf'') = py ''a''"
  "sin_extension (py ''a.pdf.pdf'') = py ''a.pdf''"
  "sin_extension (py ''INV-2024-07.pdf'') = py ''INV-2024-07''"
  by (simp_all add: py_replace_def sin_extension_def py_def)

lemma nif_separator:
  "re_search (patron_nif U) (py ''IVA: B12345678'') = Some (Some (py ''B12345678''))"
  "re_search (patron_nif U) (py ''CIF: B12345678'') = None"
  "re_search (patron_nif U) (py ''CIFB12345678'') = Some (Some (py ''B12345678''))"
  by (simp_all add: patron_nif_def pats cls py_def)

text \<open>
  Claim C1. What the code returns for the text of the end-to-end scenario and any file
  name: the invoice number \<^verbatim>\<open>A123\<close>, the date \<^verbatim>\<open>01/02/2024\<close>, the base amount 80.00, the
  tax amount 16.80, the total 96.80 (the floats nearest to these decimals) and an empty
  customer, as the claim says; but an empty supplier identifier, where the claim says
  \<^verbatim>\<open>B12345678\<close>. In the pattern \<^verbatim>\<open>(?:CIF|NIF|IVA:\s*)([A-Z]\d{8}[A-Z]?)\<close> the separator
  \<^verbatim>\<open>:\s*\<close> belongs to the alternative \<^verbatim>\<open>IVA\<close> only: \<^verbatim>\<open>IVA: B12345678\<close> is found,
  \<^verbatim>\<open>CIF: B12345678\<close> is not (lemma \<open>nif_separator\<close>).
\<close>

theorem end_to_end_scenario:
  "extraer_datos_factura_completo U texto_factura nombre =
     Inr \<lparr>numero_factura = py ''A123'', fecha_factura = py ''01/02/2024'', proveedor = [],
          cliente = [], base_imponible = Some (round_double 80),
          iva = Some (round_double (84 / 5)), total = Some (round_double (484 / 5)),
          nombre_fichero = nombre\<rparr>"
  by (rule datos_texto_factura)

text \<open>The record the claim describes is not what the code returns: it does not hold the
  supplier identifier \<^verbatim>\<open>B12345678\<close>, whatever the file name and the character database.\<close>

theorem end_to_end_scenario_counterexample:
  "\<forall>U nombre.
     re_search (patron_nif U) texto_factura = None \<and>
     extraer_datos_factura_completo U texto_factura nombre \<noteq>
       Inr \<lparr>numero_factura = py ''A123'', fecha_factura = py ''01/02/2024'',
            proveedor = py ''B12345678'', cliente = [], base_imponible = Some (round_double 80),
            iva = Some (round_double (84 / 5)), total = Some (round_double (484 / 5)),
            nombre_fichero = nombre\<rparr>"
  by (simp add: datos_texto_factura campos_texto_factura py_def)

section \<open>The invoice number\<close>

lemma extraer_datos_campos:
  "\<exists>d. extraer_datos_factura_completo U texto nombre = Inr d \<and> nombre_fichero d = nombre \<and>
       cliente d = [] \<and>
       (case numero_match U texto of
          Some g \<Rightarrow> normalizar_numero U g
        | None \<Rightarrow> Inr (py_replace (py ''.pdf'') [] nombre)) = Inr (numero_factura d)"
proof -
  obtain n where n: "(case numero_match U texto of
                Some g \<Rightarrow> normalizar_numero U g
              | None \<Rightarrow> Inr (py_replace (py ''.pdf'') [] nombre)) = Inr n"
    using normalizar_numero_Inr by (cases "numero_match U texto") auto
  obtain f where f: "(case re_search (patron_fecha U) texto of
                  Some g \<Rightarrow> normalizar_fecha U g
                | None \<Rightarrow> Inr []) = Inr f"
    using normalizar_fecha_Inr by (cases "re_search (patron_fecha U) texto") auto
  obtain m where m: "extraer_importes_universal U texto = Inr m"
    using extraer_importes_universal_total by blast
  obtain p where p: "(case re_search (patron_nif U) texto of
                      Some g \<Rightarrow> slice50 g
                    | None \<Rightarrow> Inr []) = Inr p"
    using patron_nif_group [of U texto]
    by (cases "re_search (patron_nif U) texto") (auto simp: slice50_def)
  show ?thesis
    unfolding extraer_datos_factura_completo_def n f m p
    by (simp add: py_bind_def datos_update_def)
qed

text \<open>A file name that ends in \<^verbatim>\<open>.pdf\<close> and holds no other \<^verbatim>\<open>.pdf\<close>: deleting every
  \<^verbatim>\<open>.pdf\<close> leaves the name without its extension.\<close>

lemma replace_from_stem:
  assumes "\<And>pre post. stem \<noteq> pre @ [46, 112, 100, 102] @ post"
  shows "replace_from [46, 112, 100, 102] [] 0 (stem @ [46, 112, 100, 102]) = stem"
  using assms
proof (induction stem)
  case Nil
  then show ?case by simp
next
  case (Cons c cs)
  have tl: "cs \<noteq> pre @ [46, 112, 100, 102] @ post" for pre post
    using Cons.prems [of "c # pre" post] by simp
  have ne: "take (length [46, 112, 100, 102 :: nat]) (c # (cs @ [46, 112, 100, 102])) \<noteq> [46, 112, 100, 102]"
  proof
    assume e: "take (length [46, 112, 100, 102 :: nat]) (c # (cs @ [46, 112, 100, 102])) = [46, 112, 100, 102]"
    show False
    proof (cases cs)
      case Nil
      with e show False by simp
    next
      case 1: (Cons x xs)
      show False
      proof (cases xs)
        case Nil
        with e 1 show False by simp
      next
        case 2: (Cons y ys)
        show False
        proof (cases ys)
          case Nil
          with e 1 2 show False by simp
        next
          case 3: (Cons z zs)
          with e 1 2 have "c # cs = [] @ [46, 112, 100, 102] @ zs" by simp
          with Cons.prems [of "[]" zs] show False by blast
        qed
      qed
    qed
  qed
  have "replace_from [46, 112, 100, 102] [] 0 (c # (cs @ [46, 112, 100, 102])) =
          c # replace_from [46, 112, 100, 102] [] 0 (cs @ [46, 112, 100, 102])"
    by (simp only: replace_from.simps ne if_False)
  with Cons.IH [OF tl] show ?case by (simp only: append_Cons)
qed

lemma py_pdf: "py ''.pdf'' = [46, 112, 100, 102]"
  by (simp add: py_def)

lemma py_replace_stem:
  assumes "\<And>pre post. stem \<noteq> pre @ py ''.pdf'' @ post"
  shows "py_replace (py ''.pdf'') [] (stem @ py ''.pdf'') = stem"
  using assms unfolding py_pdf py_replace_def by (rule replace_from_stem)

text \<open>
  Claim C9, as amended. When none of the three invoice-number patterns matches, the
  invoice number is the file name with every occurrence of \<^verbatim>\<open>.pdf\<close> deleted. For a file
  name that is a stem followed by \<^verbatim>\<open>.pdf\<close>, the stem holding no \<^verbatim>\<open>.pdf\<close>, this is the stem:
  the file name without its extension.
\<close>

theorem numero_from_file_name:
  assumes "numero_match U texto = None"
  shows "\<exists>d. extraer_datos_factura_completo U texto nombre = Inr d \<and>
             numero_factura d = py_replace (py ''.pdf'') [] nombre \<and>
             (\<forall>stem. nombre = stem @ py ''.pdf'' \<and> (\<forall>pre post. stem \<noteq> pre @ py ''.pdf'' @ post)
                \<longrightarrow> numero_factura d = stem)"
proof -
  from extraer_datos_campos [of U texto nombre] assms obtain d where
    d: "extraer_datos_factura_completo U texto nombre = Inr d"
       "numero_factura d = py_replace (py ''.pdf'') [] nombre" by auto
  have "numero_factura d = stem"
    if "nombre = stem @ py ''.pdf'' \<and> (\<forall>pre post. stem \<noteq> pre @ py ''.pdf'' @ post)" for stem
    using that d(2) py_replace_stem [of stem] by simp
  with d show ?thesis by blast
qed

theorem numero_from_file_name_witness:
  "\<forall>U. numero_match U texto_sin_etiquetas = None \<and>
        (\<exists>d. extraer_datos_factura_completo U texto_sin_etiquetas (py ''INV-2024-07.pdf'') = Inr d \<and>
             numero_factura d = py ''INV-2024-07'')"
proof (intro allI conjI)
  fix U
  show n: "numero_match U texto_sin_etiquetas = None"
    by (simp add: numero_match_def campos_texto_sin_etiquetas)
  from numero_from_file_name [OF n, of "py ''INV-2024-07.pdf''"]
  show "\<exists>d. extraer_datos_factura_completo U texto_sin_etiquetas (py ''INV-2024-07.pdf'') = Inr d \<and>
             numero_factura d = py ''INV-2024-07''"
    by (auto simp: replace_ejemplos)
qed

text \<open>The claim as stated fails for the file name \<^verbatim>\<open>a.pdf.pdf\<close>: without its extension it
  is \<^verbatim>\<open>a.pdf\<close>, and the invoice number is \<^verbatim>\<open>a\<close>.\<close>

theorem numero_from_file_name_counterexample:
  "\<forall>U. numero_match U texto_sin_etiquetas = None \<and>
        sin_extension (py ''a.pdf.pdf'') = py ''a.pdf'' \<and>
        extraer_datos_factura_completo U texto_sin_etiquetas (py ''a.pdf.pdf'') =
          Inr \<lparr>numero_factura = py ''a'', fecha_factura = [], proveedor = [], cliente = [],
               base_imponible = None, iva = None, total = None,
               nombre_fichero = py ''a.pdf.pdf''\<rparr> \<and>
        py ''a'' \<noteq> sin_extension (py ''a.pdf.pdf'')"
  by (simp add: numero_match_def campos_texto_sin_etiquetas datos_texto_sin_etiquetas replace_ejemplos)
     (simp add: py_def)

text \<open>A match of a pattern that ends in \<^verbatim>\<open>(\w+)\<close> has a group of one or more word
  characters.\<close>

lemma word_group_last:
  assumes "re_search (cat (xs @ [word_group U])) s = Some g"
  shows "\<exists>w. g = Some w \<and> w \<noteq> [] \<and> list_all (is_word U) w"
proof -
  from re_search_from_bt [OF assms] obtain s' where
    "bt (cat (xs @ [word_group U])) (\<lambda>s' g. Some g) s' None = Some g" by blast
  then have "bt (foldr Cat xs (Cat (Grp (Rep True 1 None (is_word U))) Eps)) (\<lambda>s' g. Some g) s' None = Some g"
    by (simp only: cat_snoc word_group_def)
  from bt_group_last [OF this] obtain s1 g1 where
    "bt (Rep True 1 None (is_word U)) (\<lambda>s' g'. Some (Some (take (length s1 - length s') s1))) s1 g1 = Some g"
    by blast
  then have "rep_max (is_word U) 1 None (\<lambda>s'. Some (Some (take (length s1 - length s') s1))) s1 = Some g"
    by simp
  from rep_max_from_cont [OF this] obtain n where
    n: "1 \<le> n" "n \<le> length s1" "list_all (is_word U) (take n s1)"
       "Some (Some (take (length s1 - length (drop n s1)) s1)) = Some g" by blast
  from n(2) have "length s1 - length (drop n s1) = n" by simp
  with n(4) have "g = Some (take n s1)" by simp
  moreover from n(1,2) have "take n s1 \<noteq> []" by (cases s1) auto
  ultimately show ?thesis using n(3) by blast
qed

lemma numero_match_group:
  assumes "numero_match U texto = Some g"
  shows "\<exists>w. g = Some w \<and> w \<noteq> [] \<and> list_all (is_word U) w"
proof -
  have 1: "patron_numero_1 U =
      cat ([lit (py ''N''), Opt (alts [lit [46, 176], lit [186]]), sp U,
          lit (py ''d''), Opt (chr 101), sp U, lit (py ''factura''), sp U,
          colon_dash, sp U] @ [word_group U])"
    by (simp add: patron_numero_1_def)
  have 2: "patron_numero_2 U =
      cat ([lit (py ''N'' @ [250] @ py ''mero''), sp U, colon_dash, sp U] @ [word_group U])"
    by (simp add: patron_numero_2_def)
  have 3: "patron_numero_3 U = cat ([lit (py ''Factura''), colon_dash, sp U] @ [word_group U])"
    by (simp add: patron_numero_3_def)
  from assms have "re_search (patron_numero_1 U) texto = Some g \<or>
      re_search (patron_numero_2 U) texto = Some g \<or> re_search (patron_numero_3 U) texto = Some g"
    by (auto simp: numero_match_def split: option.splits)
  then show ?thesis
    using word_group_last [of _ U texto g] unfolding 1 2 3 by blast
qed

text \<open>Where no character is both alphanumeric and a blank (as in Unicode), a word
  character is no blank, and \<open>normalizar_numero\<close> keeps a word as it is.\<close>

lemma is_word_not_space:
  assumes "\<forall>c. \<not> (uni_alnum U c \<and> uni_space U c)" and "is_word U c"
  shows "\<not> is_space U c"
  using assms by (auto simp: is_word_def is_alnum_def is_space_def split: if_splits)

lemma dropWhile_id: "w \<noteq> [] \<Longrightarrow> \<not> P (hd w) \<Longrightarrow> dropWhile P w = w"
  by (cases w) auto

lemma py_strip_word:
  assumes "\<forall>c. \<not> (uni_alnum U c \<and> uni_space U c)" and "w \<noteq> []" and "list_all (is_word U) w"
  shows "py_strip U w = w"
proof -
  from assms(2,3) have hw: "is_word U (hd w)" and lw: "is_word U (last w)"
    by (auto simp: list_all_iff)
  have h: "\<not> is_space U (hd w)" "\<not> is_space U (last w)"
    by (rule is_word_not_space [OF assms(1) hw]) (rule is_word_not_space [OF assms(1) lw])
  from h(1) assms(2) have 1: "dropWhile (is_space U) w = w" by (rule dropWhile_id [rotated])
  from h(2) assms(2) have 2: "dropWhile (is_space U) (rev w) = rev w"
    by (intro dropWhile_id) (auto simp: hd_rev)
  show ?thesis by (simp add: py_strip_def 1 2)
qed

lemma normalizar_numero_word:
  assumes "\<forall>c. \<not> (uni_alnum U c \<and> uni_space U c)" and "w \<noteq> []" and "list_all (is_word U) w"
  shows "normalizar_numero U (Some w) = Inr w"
proof -
  from assms(3) have "filter (\<lambda>c. is_word U c \<or> c = 45) w = w"
    by (auto simp: list_all_iff intro: filter_True)
  with assms(2) py_strip_word [OF assms] show ?thesis
    by (simp add: normalizar_numero_def re_sub_class_def)
qed

text \<open>
  Claim C5, as amended. For every text and file name the record's \<open>nombre_fichero\<close> is the
  file name given (not empty when the file name is not), and \<open>numero_factura\<close> is empty
  only when none of the three patterns matches and deleting \<^verbatim>\<open>.pdf\<close> from the file name
  leaves nothing. (A match gives one or more word characters, which \<open>normalizar_numero\<close>
  keeps; this needs that no character is both alphanumeric and a blank, as in Unicode.)
\<close>

theorem numero_factura_non_empty:
  assumes "\<forall>c. \<not> (uni_alnum U c \<and> uni_space U c)"
  shows "\<exists>d. extraer_datos_factura_completo U texto nombre = Inr d \<and> nombre_fichero d = nombre \<and>
             (numero_factura d = [] \<longrightarrow>
                numero_match U texto = None \<and> py_replace (py ''.pdf'') [] nombre = [])"
proof -
  from extraer_datos_campos [of U texto nombre] obtain d where
    d: "extraer_datos_factura_completo U texto nombre = Inr d" "nombre_fichero d = nombre"
       "(case numero_match U texto of
          Some g \<Rightarrow> normalizar_numero U g
        | None \<Rightarrow> Inr (py_replace (py ''.pdf'') [] nombre)) = Inr (numero_factura d)" by blast
  have "numero_match U texto = None \<and> py_replace (py ''.pdf'') [] nombre = []"
    if e: "numero_factura d = []"
  proof (cases "numero_match U texto")
    case None
    with d(3) e show ?thesis by simp
  next
    case (Some g)
    from numero_match_group [OF Some] obtain w where
      w: "g = Some w" "w \<noteq> []" "list_all (is_word U) w" by blast
    from normalizar_numero_word [OF assms w(2,3)] d(3) Some w(1) have "numero_factura d = w" by simp
    with e w(2) show ?thesis by simp
  qed
  with d(1,2) show ?thesis by blast
qed

theorem numero_factura_non_empty_witness:
  "(\<forall>c. \<not> (uni_alnum ascii_db c \<and> uni_space ascii_db c)) \<and>
   (\<exists>d. extraer_datos_factura_completo ascii_db texto_factura (py ''f.pdf'') = Inr d \<and>
        nombre_fichero d = py ''f.pdf'' \<and> numero_factura d = py ''A123'' \<and> numero_factura d \<noteq> [])"
proof -
  have a: "\<forall>c. \<not> (uni_alnum ascii_db c \<and> uni_space ascii_db c)"
    by (simp add: ascii_db_def)
  from numero_factura_non_empty [OF a, of texto_factura "py ''f.pdf''"] a
  show ?thesis
    by (auto simp: datos_texto_factura py_def)
qed

text \<open>The claim as stated fails: for a text without invoice-number label and the file
  name \<^verbatim>\<open>.pdf\<close> the invoice number is the empty string.\<close>

theorem numero_factura_non_empty_counterexample:
  "\<forall>U. extraer_datos_factura_completo U texto_sin_etiquetas (py ''.pdf'') =
          Inr \<lparr>numero_factura = [], fecha_factura = [], proveedor = [], cliente = [],
               base_imponible = None, iva = None, total = None, nombre_fichero = py ''.pdf''\<rparr>"
  by (simp add: datos_texto_sin_etiquetas replace_ejemplos)

end
